theory Spec2Isabelle
  imports Complex_Main "HOL-Library.AList"
begin

section \<open>PulsePortraiture, pptoas.py: shallow embedding\<close>

text \<open>
  The theory embeds the control and book-keeping logic of \<^verbatim>\<open>pptoas.py\<close>. Python
  floats are modelled as \<open>real\<close> (a not-a-number value is written out as \<open>None\<close>
  where the source tests for it), Python integers as \<open>int\<close> or \<open>nat\<close>, exceptions
  as values of the type \<open>exn\<close>, and everything the program reads from
  \<^verbatim>\<open>pptoaslib\<close>, PSRCHIVE or numpy is a parameter of the function that calls it.
\<close>

subsection \<open>Exceptions and printed output\<close>

text \<open>
  \<open>SystemExit c\<close> carries the argument of \<^verbatim>\<open>sys.exit\<close>; \<^verbatim>\<open>sys.exit()\<close> passes
  \<open>None\<close>. The interpreter turns it into the exit status of the process.
\<close>

datatype exn =
    SystemExit "int option"
  | NameError string
  | UnboundLocalError string
  | AttributeError string
  | ValueError
  | IndexError
  | ZeroDivisionError

fun exit_status :: "exn \<Rightarrow> int" where
  "exit_status (SystemExit None) = 0"
| "exit_status (SystemExit (Some c)) = c"
| "exit_status _ = 1"

text \<open>What the program writes to standard output: a printed line, or the help text
  of the option parser built from a usage string.\<close>

datatype out = Line string | Help string

subsection \<open>Formatting of \<^verbatim>\<open>%d\<close>\<close>

definition digit_char :: "nat \<Rightarrow> char" where
  "digit_char d = ''0123456789'' ! d"

fun string_of_nat :: "nat \<Rightarrow> string" where
  "string_of_nat n =
     (if n < 10 then [digit_char n]
      else string_of_nat (n div 10) @ [digit_char (n mod 10)])"

subsection \<open>\<^verbatim>\<open>GetTOAs.__init__\<close>\<close>

definition max_nfile :: nat where
  "max_nfile = 999"

text \<open>
  The argument \<^verbatim>\<open>datafiles\<close> is the name of one archive, or the name of a metafile
  (\<^verbatim>\<open>file_is_type(datafiles, "ASCII")\<close>), given here by its lines as
  \<^verbatim>\<open>readlines()\<close> returns them.
\<close>

datatype datafiles_arg = ArchiveName string | MetaFile "string list"

fun read_datafiles :: "datafiles_arg \<Rightarrow> string list" where
  "read_datafiles (MetaFile lns) = map butlast lns"
| "read_datafiles (ArchiveName f) = [f]"

text \<open>A TOA flag value is a number, an integer or a string.\<close>

datatype flagval = FNum real | FInt int | FStr string

record TOA =
  archive :: string
  frequency :: real
  MJD :: real
  TOA_error :: real
  telescope :: string
  telescope_code :: string
  DM :: "real option"
  DM_error :: "real option"
  flags :: "(string \<times> flagval) list"

text \<open>
  The attributes of a \<^verbatim>\<open>GetTOAs\<close> object that the modelled methods read or
  write; the constructor sets every list to the empty list. \<open>self_gmodel\<close> holds
  the attributes \<^verbatim>\<open>gparams[1]\<close>, \<^verbatim>\<open>model_nu_ref\<close> and \<^verbatim>\<open>alpha\<close>, which the object
  has only after a Gaussian model was read with scattering requested.
\<close>

record GetTOAs =
  datafiles :: "string list"
  modelfile :: string
  is_FITS_model :: bool
  ok_idatafiles :: "nat list"
  ok_isubs_s :: "nat list list"
  DM0s :: "real list"
  DeltaDM_means :: "real list"
  DeltaDM_errs :: "real list"
  TOA_list :: "TOA list"
  self_gmodel :: "(real \<times> real \<times> real) option"
  quiet_s :: bool

definition too_many_msg :: string where
  "too_many_msg =
     ''Too many archives.  See/change max_nfile(='' @ string_of_nat max_nfile
       @ '') in pptoas.py.''"

text \<open>The constructor returns what it printed and either the new object or the
  exception that left it. \<open>fits\<close> is \<^verbatim>\<open>file_is_type(modelfile, "FITS")\<close>.\<close>

definition GetTOAs_init ::
  "datafiles_arg \<Rightarrow> string \<Rightarrow> bool \<Rightarrow> bool \<Rightarrow> out list \<times> (exn + GetTOAs)" where
  "GetTOAs_init dfs mf fits quiet =
     (let files = read_datafiles dfs in
      if length files > max_nfile
      then ([Line too_many_msg], Inl (SystemExit None))
      else ([], Inr \<lparr> datafiles = files, modelfile = mf, is_FITS_model = fits,
                      ok_idatafiles = [], ok_isubs_s = [], DM0s = [],
                      DeltaDM_means = [], DeltaDM_errs = [], TOA_list = [],
                      self_gmodel = None, quiet_s = quiet \<rparr>))"

subsection \<open>The command line\<close>

text \<open>
  \<^verbatim>\<open>OptionParser.exit(status=0, msg=None)\<close> of the standard library calls
  \<^verbatim>\<open>sys.exit(status)\<close>.
\<close>

definition parser_exit :: "int \<Rightarrow> exn" where
  "parser_exit status = SystemExit (Some status)"

record cli_options =
  o_datafiles :: "string option"
  o_modelfile :: "string option"
  o_narrowband :: bool
  o_psrchive :: bool

definition usage :: string where
  "usage = ''Usage: %prog -d <datafile or metafile> -m <modelfile> [options]''"

definition banner :: string where
  "banner = ''pptoas.py - simultaneously measure TOAs, DMs, and scattering in broadband data''"

text \<open>
  The start of the main program, up to the construction of the \<^verbatim>\<open>GetTOAs\<close>
  object: the output so far, and the exception that ended the run or the object
  that the measuring methods are then called on. \<open>as_meta f\<close> is the content of
  \<open>f\<close> when it is an ASCII metafile.
\<close>

definition main_start ::
  "(string \<Rightarrow> string list option) \<Rightarrow> (string \<Rightarrow> bool) \<Rightarrow> bool \<Rightarrow> cli_options
     \<Rightarrow> out list \<times> (exn + GetTOAs)" where
  "main_start as_meta is_fits quiet opts =
     (case (o_datafiles opts, o_modelfile opts) of
        (Some df, Some mf) \<Rightarrow>
          GetTOAs_init (case as_meta df of Some lns \<Rightarrow> MetaFile lns
                                          | None \<Rightarrow> ArchiveName df)
                       mf (is_fits mf) quiet
      | _ \<Rightarrow> ([Line [], Line banner, Line [], Help usage, Line []],
               Inl (parser_exit 0)))"


subsection \<open>\<^verbatim>\<open>get_TOAs\<close>: arguments, loaded data, fit results\<close>

text \<open>
  The keyword arguments of \<^verbatim>\<open>get_TOAs\<close> that the modelled code reads.
  \<open>nu_refs\<close> is \<open>None\<close> or a pair whose components may be \<open>None\<close>, as the main
  program builds it; \<open>addtnl_toa_flags\<close> is a dictionary in insertion order.
\<close>

record toa_opts =
  bary :: bool
  fit_DM :: bool
  fit_GM :: bool
  fit_scat :: bool
  log10_tau :: bool
  fix_alpha :: bool
  nu_refs :: "(real option \<times> real option) option"
  DM0 :: "real option"
  print_phase :: bool
  print_flux :: bool
  print_parangle :: bool
  addtnl_toa_flags :: "(string \<times> flagval) list"

text \<open>
  What \<^verbatim>\<open>load_data\<close> returned for one archive (the namespace \<^verbatim>\<open>d\<close>). Arrays over
  the subintegrations are functions of the index \<open>isub\<close>, which the loop body checks
  against \<open>nsub\<close>; \<open>d_ok_ichans d isub\<close> lists the good channels of a
  subintegration. Epochs are in days.
\<close>

record archive_data =
  d_datafile :: string
  d_nsub :: nat
  d_nchan :: nat
  d_nbin :: nat
  d_ok_isubs :: "nat list"
  d_epochs :: "nat \<Rightarrow> real"
  d_Ps :: "nat \<Rightarrow> real"
  d_doppler_factors :: "nat \<Rightarrow> real"
  d_freqs :: "nat \<Rightarrow> nat \<Rightarrow> real"
  d_ok_ichans :: "nat \<Rightarrow> nat list"
  d_subtimes :: "nat \<Rightarrow> real"
  d_parallactic_angles :: "nat \<Rightarrow> real"
  d_backend_delay :: real
  d_DM :: real
  d_bw :: real
  d_backend :: string
  d_frontend :: string
  d_telescope :: string
  d_telescope_code :: string

text \<open>\<^verbatim>\<open>freqsx = d.freqs[isub, d.ok_ichans[isub]]\<close>: the frequencies of the good
  channels.\<close>

definition freqsx :: "archive_data \<Rightarrow> nat \<Rightarrow> real list" where
  "freqsx d isub = map (d_freqs d isub) (d_ok_ichans d isub)"

text \<open>
  The fields of the result of \<^verbatim>\<open>fit_portrait_full\<close> that \<^verbatim>\<open>get_TOAs\<close> computes
  with (\<open>res_DM\<close> and \<open>res_DM_err\<close> are \<^verbatim>\<open>results.DM\<close> and \<^verbatim>\<open>results.DM_err\<close>).
  The remaining fields (scales, per-channel S/N, return code, number of
  evaluations) are only copied into arrays of the object.
\<close>

record fit_result =
  phi :: real
  phi_err :: real
  res_DM :: real
  res_DM_err :: real
  GM :: real
  GM_err :: real
  tau :: real
  tau_err :: real
  alpha :: real
  alpha_err :: real
  covariance_matrix :: "real list list"
  snr :: real
  red_chi2 :: real
  nu_DM :: real
  nu_GM :: real
  nu_tau :: real
  duration :: real

text \<open>
  What \<^verbatim>\<open>load_data\<close> and the checks after it (lines 261 to 304) make of one
  archive: \<open>Skip\<close> when the loop goes on to the next archive before the archive
  is recorded (the load raised \<^verbatim>\<open>RuntimeError\<close>, the profile S/N is not-a-number
  or zero, more than ten channels have a not-a-number S/N), the loaded data
  otherwise.
\<close>

datatype load_result = Skip | Loaded archive_data

text \<open>The result of \<^verbatim>\<open>fit_phase_shift\<close> for one channel; \<open>fp_phi\<close> holds the
  attributes \<^verbatim>\<open>phi\<close> and \<^verbatim>\<open>phi_err\<close>, and \<open>fp_cov01\<close> the element \<open>[0, 1]\<close> of
  \<^verbatim>\<open>covariance_matrix\<close>, when the result has them.\<close>

record phase_result =
  fp_phase :: real
  fp_phase_err :: real
  fp_snr :: real
  fp_red_chi2 :: real
  fp_duration :: real
  fp_phi :: "(real \<times> real) option"
  fp_cov01 :: "real option"

text \<open>
  What the methods take from outside \<^verbatim>\<open>pptoas.py\<close>:
  \<^item> \<open>load_data\<close>, by archive name, and \<open>model_data\<close>, the numbers of bins and
    channels of the model file loaded as an archive;
  \<^item> \<open>fit_portrait_full\<close>, the Fit Engine applied to the portrait, template and
    guesses of subintegration \<open>isub\<close> of an archive with a fit mask;
  \<^item> \<open>estimate_flux\<close>, the flux, its error and its reference frequency computed
    from the fitted model (lines 598 to 624);
  \<^item> \<open>globals\<close>, the numbers bound to names at module level, which
    \<^verbatim>\<open>from pptoaslib import *\<close> decides for every name that \<^verbatim>\<open>pptoas.py\<close> does not
    assign itself, and \<open>scattering_alpha\<close>, one of them;
  \<^item> \<open>read_gmodel\<close>, the scattering time, reference frequency and scattering
    index that \<^verbatim>\<open>read_model\<close> finds in a Gaussian model file (\<open>None\<close> when the
    model is a spline model);
  \<^item> \<open>phase_guess\<close> and \<open>fit_phase_shift\<close>, the phase fits of the narrowband
    method, and \<open>model_weight_zero\<close>, whether the model archive has weight zero
    in a channel.
\<close>

record externals =
  load_data :: "string \<Rightarrow> load_result"
  model_data :: "nat \<times> nat"
  fit_portrait_full :: "string \<Rightarrow> nat \<Rightarrow> nat list \<Rightarrow> fit_result"
  estimate_flux :: "string \<Rightarrow> nat \<Rightarrow> fit_result \<Rightarrow> real \<times> real \<times> real"
  globals :: "string \<Rightarrow> real option"
  scattering_alpha :: real
  read_gmodel :: "(real \<times> real \<times> real) option"
  phase_guess :: "string \<Rightarrow> nat \<Rightarrow> real \<Rightarrow> real \<Rightarrow> real \<Rightarrow> real \<Rightarrow> real"
  fit_phase_shift :: "string \<Rightarrow> nat \<Rightarrow> nat \<Rightarrow> phase_result"
  model_weight_zero :: "nat \<Rightarrow> nat \<Rightarrow> bool"

text \<open>Reading a name that the method does not assign: a module-level lookup.\<close>

definition lookup_global :: "externals \<Rightarrow> string \<Rightarrow> exn + real" where
  "lookup_global X n = (case globals X n of None \<Rightarrow> Inl (NameError n) | Some v \<Rightarrow> Inr v)"

subsection \<open>\<^verbatim>\<open>get_TOAs\<close>: the settings derived from the arguments\<close>

text \<open>Lines 227 to 231. The subtraction comes last and the sum is at least 1.\<close>

definition nfit :: "toa_opts \<Rightarrow> nat" where
  "nfit opts =
     1 + (if fit_DM opts then 1 else 0) + (if fit_GM opts then 1 else 0)
       + (if fit_scat opts then 2 else 0) - (if fix_alpha opts then 1 else 0)"

definition fit_tau :: "toa_opts \<Rightarrow> bool" where
  "fit_tau opts = fit_scat opts"

definition fit_alpha :: "toa_opts \<Rightarrow> bool" where
  "fit_alpha opts = (if fit_scat opts then \<not> fix_alpha opts else fit_scat opts)"

text \<open>\<^verbatim>\<open>self.fit_flags\<close>, the base mask (lines 232 to 238).\<close>

definition self_fit_flags :: "toa_opts \<Rightarrow> nat list" where
  "self_fit_flags opts =
     [1, of_bool (fit_DM opts), of_bool (fit_GM opts), of_bool (fit_tau opts),
      of_bool (fit_alpha opts)]"

definition self_log10_tau :: "toa_opts \<Rightarrow> bool" where
  "self_log10_tau opts = (if \<not> fit_scat opts then False else log10_tau opts)"

subsection \<open>\<^verbatim>\<open>get_TOAs\<close>: choice of the fit mask (lines 519 to 529)\<close>

text \<open>
  \<open>loc\<close> is the local variable \<^verbatim>\<open>fit_flags\<close> of \<^verbatim>\<open>get_TOAs\<close> as the previous
  iteration left it, \<open>None\<close> while nothing has been assigned to it. The branch for
  two channels assigns to an element of that variable.
\<close>

definition select_fit_flags :: "toa_opts \<Rightarrow> nat \<Rightarrow> nat list option \<Rightarrow> exn + nat list" where
  "select_fit_flags opts nchx loc =
     (if nchx = 1 then Inr [1, 0, 0, 0, 0]
      else if nchx = 2 \<and> fit_DM opts \<and> fit_GM opts then
        (case loc of
           None \<Rightarrow> Inl (UnboundLocalError ''fit_flags'')
         | Some ff \<Rightarrow> if 2 < length ff then Inr (ff[2 := 0]) else Inl IndexError)
      else Inr (self_fit_flags opts))"

subsection \<open>\<^verbatim>\<open>get_TOAs\<close>: TOA and Doppler correction (lines 572 to 593)\<close>

definition calc_TOA :: "real \<Rightarrow> real \<Rightarrow> real \<Rightarrow> fit_result \<Rightarrow> real \<times> real" where
  "calc_TOA epoch P backend_delay results =
     (epoch + ((phi results * P) + backend_delay) / (3600 * 24),
      phi_err results * P * 1000000)"

text \<open>Returns the corrected results and the local \<^verbatim>\<open>df\<close>.\<close>

definition doppler_correction ::
  "bool \<Rightarrow> real \<Rightarrow> nat list \<Rightarrow> fit_result \<Rightarrow> fit_result \<times> real" where
  "doppler_correction self_bary doppler_factor ff results =
     (if self_bary then
        (let df = doppler_factor;
             results1 = (if ff ! 1 \<noteq> 0
                         then results\<lparr>res_DM := res_DM results * df\<rparr> else results);
             results2 = (if ff ! 2 \<noteq> 0
                         then results1\<lparr>GM := GM results1 * df ^ 3\<rparr> else results1)
         in (results2, df))
      else (results, 1))"

subsection \<open>\<^verbatim>\<open>get_TOAs\<close>: storing the covariance matrix (lines 645 to 651)\<close>

text \<open>A matrix is the list of its rows; \<open>zeros n\<close> is \<^verbatim>\<open>np.zeros([n, n])\<close>.\<close>

definition zeros :: "nat \<Rightarrow> real list list" where
  "zeros n = replicate n (replicate n 0)"

definition shape :: "real list list \<Rightarrow> nat \<times> nat" where
  "shape M = (length M, if M = [] then 0 else length (hd M))"

text \<open>
  \<^verbatim>\<open>covariances[isub] = M\<close> in numpy: the value is broadcast to the shape of the
  slot when each of its dimensions equals the slot's or is 1, and the assignment
  raises \<^verbatim>\<open>ValueError\<close> otherwise.
\<close>

definition np_assign :: "real list list \<Rightarrow> real list list \<Rightarrow> exn + real list list" where
  "np_assign S M =
     (let (n, m) = shape S; (r, c) = shape M in
      if (r = n \<or> r = 1) \<and> (c = m \<or> c = 1)
      then Inr (map (\<lambda>i. map (\<lambda>j. M ! (if r = 1 then 0 else i) ! (if c = 1 then 0 else j))
                          [0..<m]) [0..<n])
      else Inl ValueError)"

text \<open>\<^verbatim>\<open>np.where(fit_flags)[0]\<close>: the positions of the free parameters.\<close>

definition np_where :: "nat list \<Rightarrow> nat list" where
  "np_where ff = filter (\<lambda>i. ff ! i \<noteq> 0) [0..<length ff]"

definition get_item :: "real list list \<Rightarrow> nat \<Rightarrow> nat \<Rightarrow> exn + real" where
  "get_item M i j =
     (if i < length M \<and> j < length (M ! i) then Inr (M ! i ! j) else Inl IndexError)"

definition set_item :: "real list list \<Rightarrow> nat \<Rightarrow> nat \<Rightarrow> real \<Rightarrow> exn + real list list" where
  "set_item S i j v =
     (if i < length S \<and> j < length (S ! i) then Inr (S[i := (S ! i)[j := v]])
      else Inl IndexError)"

text \<open>The inner and the outer loop of the handler, over the enumerated positions.\<close>

fun remap_row ::
  "real list list \<Rightarrow> real list list \<Rightarrow> nat \<Rightarrow> nat \<Rightarrow> (nat \<times> nat) list
     \<Rightarrow> exn + real list list" where
  "remap_row S M ii ifit [] = Inr S"
| "remap_row S M ii ifit ((jj, jfit) # rest) =
     (case get_item M ii jj of
        Inl e \<Rightarrow> Inl e
      | Inr v \<Rightarrow> (case set_item S ifit jfit v of
                   Inl e \<Rightarrow> Inl e
                 | Inr S' \<Rightarrow> remap_row S' M ii ifit rest))"

fun remap_rows ::
  "real list list \<Rightarrow> real list list \<Rightarrow> (nat \<times> nat) list \<Rightarrow> (nat \<times> nat) list
     \<Rightarrow> exn + real list list" where
  "remap_rows S M [] cols = Inr S"
| "remap_rows S M ((ii, ifit) # rest) cols =
     (case remap_row S M ii ifit cols of
        Inl e \<Rightarrow> Inl e
      | Inr S' \<Rightarrow> remap_rows S' M rest cols)"

definition remap :: "real list list \<Rightarrow> real list list \<Rightarrow> nat list \<Rightarrow> exn + real list list" where
  "remap S M ff = (let idx = enumerate 0 (np_where ff) in remap_rows S M idx idx)"

text \<open>The \<^verbatim>\<open>try\<close> statement: only \<^verbatim>\<open>ValueError\<close> is handled.\<close>

definition store_covariance ::
  "real list list \<Rightarrow> real list list \<Rightarrow> nat list \<Rightarrow> exn + real list list" where
  "store_covariance S M ff =
     (case np_assign S M of
        Inr S' \<Rightarrow> Inr S'
      | Inl e \<Rightarrow> if e = ValueError then remap S M ff else Inl e)"

subsection \<open>\<^verbatim>\<open>get_TOAs\<close>: the TOA flags (lines 655 to 707)\<close>

text \<open>
  \<^verbatim>\<open>toa_flags\<close> is a dictionary: an association list in insertion order, where
  \<^verbatim>\<open>toa_flags[k] = v\<close> replaces the value of a key that is present and appends
  the pair otherwise.
\<close>

type_synonym flagdict = "(string \<times> flagval) list"

definition setflag :: "string \<Rightarrow> flagval \<Rightarrow> flagdict \<Rightarrow> flagdict" where
  "setflag k v fl = AList.update k v fl"

definition nu_ref_DM :: "toa_opts \<Rightarrow> real option" where
  "nu_ref_DM opts = (case nu_refs opts of None \<Rightarrow> None | Some t \<Rightarrow> fst t)"

text \<open>Lines 659 to 677: the flags of the fitted parameters GM, tau and alpha.\<close>

definition flags_fit ::
  "toa_opts \<Rightarrow> nat list \<Rightarrow> real \<Rightarrow> real \<Rightarrow> fit_result \<Rightarrow> flagdict \<Rightarrow> flagdict" where
  "flags_fit opts ff P df results fl =
     (let fl1 = (if ff ! 2 \<noteq> 0
                 then setflag ''gm_err'' (FNum (GM_err results))
                        (setflag ''gm'' (FNum (GM results)) fl)
                 else fl);
          fl2 = (if ff ! 3 \<noteq> 0 then
                   (let fl' =
                      (if self_log10_tau opts then
                         setflag ''log10_scat_time_err'' (FNum (tau_err results))
                           (setflag ''log10_scat_time''
                              (FNum (tau results + log 10 (P / df)))
                              (setflag ''scat_time''
                                 (FNum (10 powr tau results * P / df * 1000000)) fl1))
                       else
                         setflag ''scat_time_err''
                           (FNum (tau_err results * P / df * 1000000))
                           (setflag ''scat_time''
                              (FNum (tau results * P / df * 1000000)) fl1))
                    in setflag ''scat_ind'' (FNum (alpha results))
                         (setflag ''scat_ref_freq'' (FNum (nu_tau results * df)) fl'))
                 else fl1)
      in if ff ! 4 \<noteq> 0 then setflag ''scat_ind_err'' (FNum (alpha_err results)) fl2
         else fl2)"

text \<open>Lines 678 to 690: the flags of the observation. \<open>freqsx\<close> is not empty here.\<close>

definition flags_obs ::
  "string \<Rightarrow> archive_data \<Rightarrow> nat \<Rightarrow> fit_result \<Rightarrow> flagdict \<Rightarrow> flagdict" where
  "flags_obs mf d isub results fl =
     (let fx = freqsx d isub in
      setflag ''snr'' (FNum (snr results))
     (setflag ''tmplt'' (FStr mf)
     (setflag ''fratio'' (FNum (Max (set fx) / Min (set fx)))
     (setflag ''tobs'' (FNum (d_subtimes d isub))
     (setflag ''subint'' (FInt (int isub))
     (setflag ''chbw'' (FNum (\<bar>d_bw d\<bar> / real (d_nchan d)))
     (setflag ''bw'' (FNum (Max (set fx) - Min (set fx)))
     (setflag ''nchx'' (FInt (int (length fx)))
     (setflag ''nch'' (FInt (int (d_nchan d)))
     (setflag ''nbin'' (FInt (int (d_nbin d)))
     (setflag ''f'' (FStr (d_frontend d @ ''_'' @ d_backend d))
     (setflag ''fe'' (FStr (d_frontend d))
     (setflag ''be'' (FStr (d_backend d)) fl)))))))))))))"

text \<open>
  Lines 691 to 694. \<^verbatim>\<open>np.all(fit_flags[:2])\<close> holds when the first two entries
  of the mask are not zero; reading element \<open>[0, 1]\<close> of a matrix that has none
  raises \<^verbatim>\<open>IndexError\<close>.
\<close>

definition flags_cov ::
  "toa_opts \<Rightarrow> nat list \<Rightarrow> fit_result \<Rightarrow> flagdict \<Rightarrow> exn + flagdict" where
  "flags_cov opts ff results fl =
     (if nu_ref_DM opts \<noteq> None \<and> list_all (\<lambda>x. x \<noteq> 0) (take 2 ff) then
        (case get_item (covariance_matrix results) 0 1 of
           Inl e \<Rightarrow> Inl e
         | Inr c \<Rightarrow> Inr (setflag ''gof'' (FNum (red_chi2 results))
                          (setflag ''phi_DM_cov'' (FNum c) fl)))
      else Inr (setflag ''gof'' (FNum (red_chi2 results)) fl))"

text \<open>Lines 695 to 707; \<open>flux\<close> holds \<^verbatim>\<open>fluxes[isub]\<close>, \<^verbatim>\<open>flux_errs[isub]\<close>
  and \<^verbatim>\<open>flux_freqs[isub]\<close>. The caller's pairs are written last.\<close>

definition flags_print ::
  "toa_opts \<Rightarrow> archive_data \<Rightarrow> nat \<Rightarrow> fit_result \<Rightarrow> real \<times> real \<times> real
     \<Rightarrow> flagdict \<Rightarrow> flagdict" where
  "flags_print opts d isub results flux fl =
     (let fl1 = (if print_phase opts
                 then setflag ''phs_err'' (FNum (phi_err results))
                        (setflag ''phs'' (FNum (phi results)) fl)
                 else fl);
          fl2 = (if print_flux opts
                 then setflag ''flux_ref_freq'' (FNum (snd (snd flux)))
                        (setflag ''flux_err'' (FNum (fst (snd flux)))
                           (setflag ''flux'' (FNum (fst flux)) fl1))
                 else fl1);
          fl3 = (if print_parangle opts
                 then setflag ''par_angle'' (FNum (d_parallactic_angles d isub)) fl2
                 else fl2)
      in fold (\<lambda>kv acc. setflag (fst kv) (snd kv) acc) (addtnl_toa_flags opts) fl3)"

definition compile_toa_flags ::
  "toa_opts \<Rightarrow> string \<Rightarrow> archive_data \<Rightarrow> nat \<Rightarrow> nat list \<Rightarrow> real \<Rightarrow> fit_result
     \<Rightarrow> real \<times> real \<times> real \<Rightarrow> exn + flagdict" where
  "compile_toa_flags opts mf d isub ff df results flux =
     (case flags_cov opts ff results
             (flags_obs mf d isub results
                (flags_fit opts ff (d_Ps d isub) df results [])) of
        Inl e \<Rightarrow> Inl e
      | Inr fl \<Rightarrow> Inr (flags_print opts d isub results flux fl))"

subsection \<open>\<^verbatim>\<open>get_TOAs\<close>: one subintegration (the body of the loop at line 384)\<close>

text \<open>
  The local variables of \<^verbatim>\<open>get_TOAs\<close> that outlive one iteration: \<^verbatim>\<open>fit_flags\<close>
  (unbound at first, and never reset), the per-archive arrays that the modelled
  code reads again, \<^verbatim>\<open>fit_duration\<close> and \<^verbatim>\<open>itoa\<close>. The other arrays (phases,
  scattering parameters, scales, fluxes, return codes) are filled in the same
  way and not read again.
\<close>

record locals =
  fit_flags :: "nat list option"
  TOAs :: "real list"
  TOA_errs :: "real list"
  DMs :: "real list"
  DM_errs :: "real list"
  GMs :: "real list"
  GM_errs :: "real list"
  covariances :: "real list list list"
  fit_duration :: real
  itoa :: nat

text \<open>
  The body from the fit on (lines 530 to 711), for the mask \<open>ff\<close> that was chosen:
  the updated locals and the TOA that is appended to \<^verbatim>\<open>self.TOA_list\<close>, or the
  exception that leaves \<^verbatim>\<open>get_TOAs\<close> (nothing in the loop catches one).
\<close>

definition fit_subint ::
  "externals \<Rightarrow> toa_opts \<Rightarrow> string \<Rightarrow> archive_data \<Rightarrow> nat \<Rightarrow> locals \<Rightarrow> nat list
     \<Rightarrow> exn + (locals \<times> TOA)" where
  "fit_subint X opts mf d isub L ff =
     (let epoch = d_epochs d isub;
          P = d_Ps d isub;
          results0 = fit_portrait_full X (d_datafile d) isub ff;
          (toa, toa_err) = calc_TOA epoch P (d_backend_delay d) results0;
          (results, df) =
             doppler_correction (bary opts) (d_doppler_factors d isub) ff results0;
          flux = (if print_flux opts
                  then estimate_flux X (d_datafile d) isub results
                  else (0, 0, 0))
      in if \<not> isub < length (covariances L) then Inl IndexError
         else
          (case store_covariance (covariances L ! isub)
                  (covariance_matrix results) ff of
             Inl e \<Rightarrow> Inl e
           | Inr C \<Rightarrow>
              (case compile_toa_flags opts mf d isub ff df results flux of
                 Inl e \<Rightarrow> Inl e
               | Inr toa_flags \<Rightarrow>
                   Inr (L\<lparr> fit_flags := Some ff,
                           TOAs := (TOAs L)[isub := toa],
                           TOA_errs := (TOA_errs L)[isub := toa_err],
                           DMs := (DMs L)[isub := res_DM results],
                           DM_errs := (DM_errs L)[isub := res_DM_err results],
                           GMs := (GMs L)[isub := GM results],
                           GM_errs := (GM_errs L)[isub := GM_err results],
                           covariances := (covariances L)[isub := C],
                           fit_duration := fit_duration L + duration results0,
                           itoa := itoa L + 1 \<rparr>,
                        \<lparr> archive = d_datafile d,
                          frequency = nu_DM results,
                          MJD = toa,
                          TOA_error = toa_err,
                          telescope = d_telescope d,
                          telescope_code = d_telescope_code d,
                          DM = (if ff ! 1 = 0 then None
                                else Some (res_DM results)),
                          DM_error = (if ff ! 1 = 0 then None
                                      else Some (res_DM_err results)),
                          flags = toa_flags \<rparr>))))"

text \<open>
  The whole body. Reading \<^verbatim>\<open>d.epochs[isub]\<close> needs \<open>isub < nsub\<close>; the weighted
  average over the channels at line 464 needs a good channel, as its weights sum
  to zero otherwise; then the mask is chosen and the fit is made with it.
\<close>

definition process_subint ::
  "externals \<Rightarrow> toa_opts \<Rightarrow> string \<Rightarrow> archive_data \<Rightarrow> nat \<Rightarrow> locals
     \<Rightarrow> exn + (locals \<times> TOA)" where
  "process_subint X opts mf d isub L =
     (if \<not> isub < d_nsub d then Inl IndexError
      else if freqsx d isub = [] then Inl ZeroDivisionError
      else
        (case select_fit_flags opts (length (freqsx d isub)) (fit_flags L) of
           Inl e \<Rightarrow> Inl e
         | Inr ff \<Rightarrow> fit_subint X opts mf d isub L ff))"

text \<open>The loop over \<^verbatim>\<open>d.ok_isubs\<close>; the object keeps the TOAs appended before
  an exception.\<close>

fun subint_loop ::
  "externals \<Rightarrow> toa_opts \<Rightarrow> archive_data \<Rightarrow> nat list \<Rightarrow> locals \<Rightarrow> GetTOAs
     \<Rightarrow> (exn + locals) \<times> GetTOAs" where
  "subint_loop X opts d [] L gt = (Inr L, gt)"
| "subint_loop X opts d (isub # rest) L gt =
     (case process_subint X opts (modelfile gt) d isub L of
        Inl e \<Rightarrow> (Inl e, gt)
      | Inr (L', toa) \<Rightarrow>
          subint_loop X opts d rest L' (gt\<lparr>TOA_list := TOA_list gt @ [toa]\<rparr>))"

subsection \<open>\<^verbatim>\<open>get_TOAs\<close>: the archive-level DM (lines 713 to 729)\<close>

text \<open>
  \<^verbatim>\<open>np.average(a, weights=w, returned=True)\<close>: the weighted mean and the sum of
  the weights; it raises \<^verbatim>\<open>ZeroDivisionError\<close> when the weights sum to zero.
\<close>

definition np_average :: "real list \<Rightarrow> real list \<Rightarrow> exn + (real \<times> real)" where
  "np_average a w =
     (let scl = sum_list w in
      if scl = 0 then Inl ZeroDivisionError
      else Inr (sum_list (map2 (*) a w) / scl, scl))"

text \<open>
  The arrays are indexed with \<^verbatim>\<open>d.ok_isubs\<close>; \<^verbatim>\<open>** -2\<close>, \<^verbatim>\<open>** -1\<close> and \<^verbatim>\<open>** 0.5\<close>
  are written as quotients and the square root. The result is
  \<^verbatim>\<open>(DeltaDM_mean, DeltaDM_err)\<close>.
\<close>

definition aggregate_DM ::
  "real list \<Rightarrow> real list \<Rightarrow> real \<Rightarrow> nat list \<Rightarrow> exn + (real \<times> real)" where
  "aggregate_DM DMs_a DM_errs_a DM0_a ok =
     (if \<not> list_all (\<lambda>i. i < length DMs_a \<and> i < length DM_errs_a) ok then Inl IndexError
      else
        (let DeltaDMs = map (\<lambda>x. x - DM0_a) DMs_a;
             errs = map (\<lambda>i. DM_errs_a ! i) ok;
             DM_weights = (if list_all (\<lambda>e. e \<noteq> 0) errs
                           then map (\<lambda>e. 1 / e ^ 2) errs
                           else replicate (length errs) 1);
             sel = map (\<lambda>i. DeltaDMs ! i) ok
         in case np_average sel DM_weights of
              Inl e \<Rightarrow> Inl e
            | Inr (DeltaDM_mean, sw) \<Rightarrow>
                (let DeltaDM_var = 1 / sw;
                     DeltaDM_var2 =
                       (if length ok > 1
                        then DeltaDM_var *
                             (sum_list (map2 (\<lambda>x w. (x - DeltaDM_mean) ^ 2 * w)
                                             sel DM_weights)
                                / (real (length sel) - 1))
                        else DeltaDM_var)
                 in Inr (DeltaDM_mean, sqrt DeltaDM_var2))))"

text \<open>
  The weight of subintegration \<open>i\<close> in the archive-level DM, in the words of the
  specification: the inverse square of its DM uncertainty when the uncertainties
  of all good subintegrations are nonzero, and 1 otherwise.
\<close>

definition DM_weight :: "real list \<Rightarrow> nat list \<Rightarrow> nat \<Rightarrow> real" where
  "DM_weight DM_errs_a ok i =
     (if \<forall>j \<in> set ok. DM_errs_a ! j \<noteq> 0 then (DM_errs_a ! i) powi (- 2) else 1)"

subsection \<open>\<^verbatim>\<open>get_TOAs\<close>: one archive and the loop over the archives\<close>

text \<open>The arrays made at lines 322 to 349, with the local \<^verbatim>\<open>fit_flags\<close> as the
  archives before left it.\<close>

definition init_locals :: "toa_opts \<Rightarrow> nat \<Rightarrow> nat list option \<Rightarrow> locals" where
  "init_locals opts nsub loc =
     \<lparr> fit_flags = loc,
       TOAs = replicate nsub 0, TOA_errs = replicate nsub 0,
       DMs = replicate nsub 0, DM_errs = replicate nsub 0,
       GMs = replicate nsub 0, GM_errs = replicate nsub 0,
       covariances = replicate nsub (zeros (nfit opts)),
       fit_duration = 0, itoa = 1 \<rparr>"

text \<open>
  The check of a FITS model against the data (lines 358 to 377): the archive is
  used, skipped, or the read of the name \<^verbatim>\<open>freqs\<close>, which \<^verbatim>\<open>get_TOAs\<close> does not
  assign, raises.
\<close>

datatype model_check = Use | SkipArchive | Raise exn

definition check_FITS_model :: "externals \<Rightarrow> GetTOAs \<Rightarrow> archive_data \<Rightarrow> model_check" where
  "check_FITS_model X gt d =
     (if is_FITS_model gt then
        (let (m_nbin, m_nchan) = model_data X in
         if m_nbin \<noteq> d_nbin d then SkipArchive
         else if m_nchan = 1 \<and> globals X ''freqs'' = None then Raise (NameError ''freqs'')
         else if m_nchan \<noteq> d_nchan d then SkipArchive
         else Use)
      else Use)"

text \<open>One archive whose data are loaded and accepted: the loop over the good
  subintegrations, the archive-level DM, and the attributes appended at the end.
  The result is the local \<^verbatim>\<open>fit_flags\<close> afterwards, or the exception.\<close>

definition get_TOAs_archive ::
  "externals \<Rightarrow> toa_opts \<Rightarrow> archive_data \<Rightarrow> nat list option \<Rightarrow> GetTOAs
     \<Rightarrow> (exn + nat list option) \<times> GetTOAs" where
  "get_TOAs_archive X opts d loc gt =
     (let DM0_a = (case DM0 opts of None \<Rightarrow> d_DM d | Some x \<Rightarrow> x) in
      case subint_loop X opts d (d_ok_isubs d) (init_locals opts (d_nsub d) loc) gt of
        (Inl e, gt') \<Rightarrow> (Inl e, gt')
      | (Inr L, gt') \<Rightarrow>
          (case aggregate_DM (DMs L) (DM_errs L) DM0_a (d_ok_isubs d) of
             Inl e \<Rightarrow> (Inl e, gt')
           | Inr (DeltaDM_mean, DeltaDM_err) \<Rightarrow>
               (Inr (fit_flags L),
                gt'\<lparr> ok_isubs_s := ok_isubs_s gt' @ [d_ok_isubs d],
                     DM0s := DM0s gt' @ [DM0_a],
                     DeltaDM_means := DeltaDM_means gt' @ [DeltaDM_mean],
                     DeltaDM_errs := DeltaDM_errs gt' @ [DeltaDM_err] \<rparr>)))"

fun archive_loop ::
  "externals \<Rightarrow> toa_opts \<Rightarrow> (nat \<times> string) list \<Rightarrow> nat list option \<Rightarrow> GetTOAs
     \<Rightarrow> exn option \<times> GetTOAs" where
  "archive_loop X opts [] loc gt = (None, gt)"
| "archive_loop X opts ((iarch, datafile) # rest) loc gt =
     (case load_data X datafile of
        Skip \<Rightarrow> archive_loop X opts rest loc gt
      | Loaded d \<Rightarrow>
          if d_ok_isubs d = [] then archive_loop X opts rest loc gt
          else
            (let gt1 = gt\<lparr>ok_idatafiles := ok_idatafiles gt @ [iarch]\<rparr> in
             case check_FITS_model X gt1 d of
               SkipArchive \<Rightarrow> archive_loop X opts rest loc gt1
             | Raise e \<Rightarrow> (Some e, gt1)
             | Use \<Rightarrow>
                 (case get_TOAs_archive X opts d loc gt1 of
                    (Inl e, gt2) \<Rightarrow> (Some e, gt2)
                  | (Inr loc', gt2) \<Rightarrow> archive_loop X opts rest loc' gt2)))"

text \<open>The method: the exception that left it, if any, and the object afterwards.\<close>

definition get_TOAs ::
  "externals \<Rightarrow> toa_opts \<Rightarrow> string option \<Rightarrow> GetTOAs \<Rightarrow> exn option \<times> GetTOAs" where
  "get_TOAs X opts datafile gt =
     archive_loop X opts
       (enumerate 0 (case datafile of None \<Rightarrow> datafiles gt | Some f \<Rightarrow> [f])) None gt"

subsection \<open>\<^verbatim>\<open>get_channels_to_zap\<close>: one subintegration (lines 1293 to 1333)\<close>

text \<open>
  For one subintegration the method takes the good channels \<open>ok_ichans\<close>, the row
  \<open>channel_snrs\<close> of per-channel S/N (read at a channel index) and, for every good
  channel, the reduced chi-squared that \<^verbatim>\<open>get_red_chi2\<close> computes, \<open>None\<close> when it
  is not-a-number.

  The first loop (lines 1301 to 1314), with the list \<^verbatim>\<open>bad_ichans\<close> so far.
\<close>

fun first_pass ::
  "(nat \<Rightarrow> real) \<Rightarrow> (nat \<Rightarrow> real option) \<Rightarrow> real \<Rightarrow> real \<Rightarrow> real \<Rightarrow> nat list \<Rightarrow> nat list
     \<Rightarrow> nat list" where
  "first_pass channel_snrs red_chi2_of SNR_threshold rchi2_threshold thr [] bad = bad"
| "first_pass channel_snrs red_chi2_of SNR_threshold rchi2_threshold thr (c # cs) bad =
     first_pass channel_snrs red_chi2_of SNR_threshold rchi2_threshold thr cs
       (case red_chi2_of c of
          None \<Rightarrow> bad @ [c]
        | Some x \<Rightarrow>
            if x > rchi2_threshold then bad @ [c]
            else if SNR_threshold \<noteq> 0 \<and> channel_snrs c < thr then bad @ [c]
            else bad)"

text \<open>The loop inside the \<^verbatim>\<open>while\<close> (lines 1324 to 1331).\<close>

fun snr_pass :: "(nat \<Rightarrow> real) \<Rightarrow> real \<Rightarrow> nat list \<Rightarrow> nat list \<Rightarrow> nat list" where
  "snr_pass channel_snrs thr [] bad = bad"
| "snr_pass channel_snrs thr (c # cs) bad =
     (if c \<in> set bad then snr_pass channel_snrs thr cs bad
      else if channel_snrs c < thr then snr_pass channel_snrs thr cs (bad @ [c])
      else snr_pass channel_snrs thr cs bad)"

text \<open>The effective single-channel threshold for \<open>n\<close> channels, \<open>n\<close> not zero.\<close>

definition channel_SNR_threshold :: "real \<Rightarrow> int \<Rightarrow> real" where
  "channel_SNR_threshold SNR_threshold n = sqrt (SNR_threshold ^ 2 / real_of_int n)"

text \<open>
  The \<^verbatim>\<open>while\<close> loop (lines 1320 to 1333) on the variables \<^verbatim>\<open>bad_ichans\<close>,
  \<^verbatim>\<open>old_len\<close> and \<^verbatim>\<open>added_new\<close>. An iteration that adds a channel shrinks the set
  of good channels that are not yet bad; one that adds none clears \<^verbatim>\<open>added_new\<close>.
\<close>

function snr_loop ::
  "(nat \<Rightarrow> real) \<Rightarrow> real \<Rightarrow> nat list \<Rightarrow> nat list \<Rightarrow> nat \<Rightarrow> bool \<Rightarrow> nat list" where
  "snr_loop channel_snrs SNR_threshold ok_ichans bad old_len added_new =
     (if added_new \<and> int (length ok_ichans) - int (length bad) \<noteq> 0 then
        (let thr = channel_SNR_threshold SNR_threshold
                     (int (length ok_ichans) - int (length bad));
             bad' = snr_pass channel_snrs thr ok_ichans bad
         in snr_loop channel_snrs SNR_threshold ok_ichans bad' (length bad')
              (int (length bad') - int old_len \<noteq> 0))
      else bad)"
  by pat_completeness auto
termination
proof (relation "inv_image (less_than <*lex*> less_than <*lex*> less_than)
    (\<lambda>(channel_snrs, SNR_threshold, ok_ichans, bad, old_len, added_new).
       (card (set ok_ichans - set bad),
        if old_len = length bad then 0 else (1::nat),
        if added_new then 1 else (0::nat)))", goal_cases)
  case 1
  show ?case by (intro wf_inv_image wf_lex_prod wf_less_than)
next
  case (2 channel_snrs SNR_threshold ok_ichans bad old_len added_new thr bad')
  have mono: "set b \<subseteq> set (snr_pass channel_snrs t cs b)" for t cs b
  proof (induction cs arbitrary: b)
    case Nil
    show ?case by simp
  next
    case (Cons c cs)
    have "set b \<subseteq> set (b @ [c])" by auto
    also have "\<dots> \<subseteq> set (snr_pass channel_snrs t cs (b @ [c]))" by (rule Cons)
    finally show ?case using Cons [of b] by simp
  qed
  have grow: "snr_pass channel_snrs t cs b = b
              \<or> (\<exists>c \<in> set cs. c \<notin> set b \<and> c \<in> set (snr_pass channel_snrs t cs b))"
    for t cs b
  proof (induction cs arbitrary: b)
    case Nil
    show ?case by simp
  next
    case (Cons c cs)
    show ?case
    proof (cases "c \<notin> set b \<and> channel_snrs c < t")
      case True
      then have "c \<in> set (snr_pass channel_snrs t (c # cs) b)"
        using mono [of "b @ [c]" t cs] by auto
      with True show ?thesis by auto
    next
      case False
      then have "snr_pass channel_snrs t (c # cs) b = snr_pass channel_snrs t cs b"
        by auto
      with Cons [of b] show ?thesis by auto
    qed
  qed
  from grow [of thr ok_ichans bad] show ?case
  proof
    assume same: "snr_pass channel_snrs thr ok_ichans bad = bad"
    with 2 show ?thesis by auto
  next
    assume "\<exists>c \<in> set ok_ichans. c \<notin> set bad
              \<and> c \<in> set (snr_pass channel_snrs thr ok_ichans bad)"
    then obtain c where c: "c \<in> set ok_ichans" "c \<notin> set bad" "c \<in> set bad'"
      using 2 by auto
    have "set ok_ichans - set bad' \<subset> set ok_ichans - set bad"
      using c mono [of bad thr ok_ichans] 2 by auto
    then have "card (set ok_ichans - set bad') < card (set ok_ichans - set bad)"
      by (intro psubset_card_mono) auto
    then show ?thesis using 2 by simp
  qed
qed

declare snr_loop.simps [simp del]

text \<open>
  The body of the loop over the subintegrations: \<^verbatim>\<open>bad_ichans\<close> as it is appended
  to \<^verbatim>\<open>zap_channels\<close>. The first threshold divides by the number of good channels.
\<close>

definition channels_to_zap_subint ::
  "(nat \<Rightarrow> real) \<Rightarrow> (nat \<Rightarrow> real option) \<Rightarrow> real \<Rightarrow> real \<Rightarrow> bool \<Rightarrow> nat list
     \<Rightarrow> exn + nat list" where
  "channels_to_zap_subint channel_snrs red_chi2_of SNR_threshold rchi2_threshold iterate
       ok_ichans =
     (if length ok_ichans = 0 then Inl ZeroDivisionError
      else
        (let thr = channel_SNR_threshold SNR_threshold (int (length ok_ichans));
             bad_ichans = first_pass channel_snrs red_chi2_of SNR_threshold
                            rchi2_threshold thr ok_ichans []
         in if iterate \<and> SNR_threshold \<noteq> 0 \<and> length bad_ichans \<noteq> 0
            then Inr (snr_loop channel_snrs SNR_threshold ok_ichans bad_ichans
                        (length bad_ichans) True)
            else Inr bad_ichans))"

text \<open>
  Two predicates used to state what the evaluation leaves: the test of the first
  loop on one channel, and the state of \<^verbatim>\<open>bad_ichans\<close> in which either every
  good channel is bad or every retained channel reaches the threshold computed
  from the number of retained channels.
\<close>

definition zap_first :: "(nat \<Rightarrow> real) \<Rightarrow> (nat \<Rightarrow> real option) \<Rightarrow> real \<Rightarrow> real \<Rightarrow> real \<Rightarrow> nat \<Rightarrow> bool" where
  "zap_first snrs chi T R t c =
     (case chi c of None \<Rightarrow> True | Some x \<Rightarrow> x > R \<or> (T \<noteq> 0 \<and> snrs c < t))"

definition zap_post :: "(nat \<Rightarrow> real) \<Rightarrow> real \<Rightarrow> nat list \<Rightarrow> nat list \<Rightarrow> bool" where
  "zap_post snrs T ok bad =
     (distinct bad \<and> set bad \<subseteq> set ok \<and>
      (set ok \<subseteq> set bad \<or>
       (\<forall>c \<in> set ok. c \<notin> set bad \<longrightarrow>
           sqrt (T ^ 2 / (real (length ok) - real (length bad))) \<le> snrs c)))"

subsection \<open>\<^verbatim>\<open>get_narrowband_TOAs\<close> (lines 794 to 1189)\<close>

record nb_opts =
  nb_fit_scat :: bool
  nb_log10_tau :: bool
  nb_scat_guess :: "(real \<times> real \<times> real) option"
  nb_print_phase :: bool
  nb_print_flux :: bool
  nb_print_parangle :: bool
  nb_addtnl_toa_flags :: "(string \<times> flagval) list"
  nb_quiet :: "bool option"

definition nb_self_log10_tau :: "nb_opts \<Rightarrow> bool" where
  "nb_self_log10_tau opts = (if \<not> nb_fit_scat opts then False else nb_log10_tau opts)"

text \<open>
  The initial guesses (lines 996 to 1026), \<^verbatim>\<open>(phi_guess, tau_guess)\<close>. The method
  assigns neither \<^verbatim>\<open>nu_fit_tau\<close> nor \<^verbatim>\<open>rot_prof\<close>, so each read of them is a
  module-level lookup; the operands are evaluated from left to right.
\<close>

definition nb_tau_alpha_guess ::
  "externals \<Rightarrow> nb_opts \<Rightarrow> GetTOAs \<Rightarrow> real \<Rightarrow> exn + (real \<times> real)" where
  "nb_tau_alpha_guess X opts gt P =
     (case nb_scat_guess opts of
        Some (tau_guess_s, tau_guess_ref, alpha_guess) \<Rightarrow>
          (case lookup_global X ''nu_fit_tau'' of
             Inl e \<Rightarrow> Inl e
           | Inr nu_fit_tau \<Rightarrow>
               Inr ((tau_guess_s / P) * (nu_fit_tau / tau_guess_ref) powr alpha_guess,
                    alpha_guess))
      | None \<Rightarrow>
          (case self_gmodel gt of
             Some (gparams1, model_nu_ref, self_alpha) \<Rightarrow>
               (case lookup_global X ''nu_fit_tau'' of
                  Inl e \<Rightarrow> Inl e
                | Inr nu_fit_tau \<Rightarrow>
                    Inr ((gparams1 / P) * (nu_fit_tau / model_nu_ref) powr self_alpha,
                         self_alpha))
           | None \<Rightarrow> Inr (0, scattering_alpha X)))"

definition nb_guesses ::
  "externals \<Rightarrow> nb_opts \<Rightarrow> GetTOAs \<Rightarrow> archive_data \<Rightarrow> nat \<Rightarrow> exn + (real \<times> real)" where
  "nb_guesses X opts gt d isub =
     (if nb_fit_scat opts then
        (case nb_tau_alpha_guess X opts gt (d_Ps d isub) of
           Inl e \<Rightarrow> Inl e
         | Inr (tau_guess, alpha_guess) \<Rightarrow>
             (case lookup_global X ''nu_fit_tau'' of
                Inl e \<Rightarrow> Inl e
              | Inr nu_fit_tau \<Rightarrow>
                  (case lookup_global X ''rot_prof'' of
                     Inl e \<Rightarrow> Inl e
                   | Inr rot_prof \<Rightarrow>
                       Inr (phase_guess X (d_datafile d) isub tau_guess alpha_guess
                              nu_fit_tau rot_prof,
                            if nb_self_log10_tau opts
                            then log 10 (if tau_guess = 0 then 1 / real (d_nbin d)
                                         else tau_guess)
                            else tau_guess))))
      else Inr (0, 0))"

text \<open>
  The flags of one channel (lines 1103 to 1142). \<^verbatim>\<open>fit_flags[1]\<close> is
  \<^verbatim>\<open>int(fit_scat)\<close>. The method assigns \<^verbatim>\<open>df\<close> only in the branch for
  \<^verbatim>\<open>log10_tau\<close>, from the name \<^verbatim>\<open>doppler_factors\<close>, which it does not assign, as
  it does not assign \<^verbatim>\<open>fluxes\<close> and \<^verbatim>\<open>flux_errs\<close>; the result of
  \<^verbatim>\<open>fit_phase_shift\<close> may lack \<^verbatim>\<open>covariance_matrix\<close> and \<^verbatim>\<open>phi\<close>.
\<close>

definition nb_flags_scat ::
  "externals \<Rightarrow> nb_opts \<Rightarrow> real \<Rightarrow> phase_result \<Rightarrow> exn + flagdict" where
  "nb_flags_scat X opts P results =
     (if nb_fit_scat opts then
        (case (if nb_self_log10_tau opts
               then (case lookup_global X ''doppler_factors'' of
                       Inl e \<Rightarrow> Inl e
                     | Inr df \<Rightarrow>
                         Inr (setflag ''log10_scat_time_err'' (FNum 0)
                               (setflag ''log10_scat_time'' (FNum (0 + log 10 (P / df)))
                                 (setflag ''scat_time''
                                    (FNum (10 powr 0 * P / df * 1000000)) []))))
               else Inl (UnboundLocalError ''df'')) of
           Inl e \<Rightarrow> Inl e
         | Inr fl \<Rightarrow>
             (case fp_cov01 results of
                None \<Rightarrow> Inl (AttributeError ''covariance_matrix'')
              | Some c \<Rightarrow> Inr (setflag ''phi_tau_cov'' (FNum c) fl)))
      else Inr [])"

definition nb_flags_obs ::
  "string \<Rightarrow> archive_data \<Rightarrow> nat \<Rightarrow> nat \<Rightarrow> phase_result \<Rightarrow> flagdict \<Rightarrow> flagdict" where
  "nb_flags_obs mf d isub ichan results fl =
      setflag ''gof'' (FNum (fp_red_chi2 results))
     (setflag ''snr'' (FNum (fp_snr results))
     (setflag ''tmplt'' (FStr mf)
     (setflag ''tobs'' (FNum (d_subtimes d isub))
     (setflag ''chan'' (FInt (int ichan))
     (setflag ''subint'' (FInt (int isub))
     (setflag ''bw'' (FNum (\<bar>d_bw d\<bar> / real (d_nchan d)))
     (setflag ''nbin'' (FInt (int (d_nbin d)))
     (setflag ''f'' (FStr (d_frontend d @ ''_'' @ d_backend d))
     (setflag ''fe'' (FStr (d_frontend d))
     (setflag ''be'' (FStr (d_backend d)) fl))))))))))"

definition nb_flags_print ::
  "externals \<Rightarrow> nb_opts \<Rightarrow> archive_data \<Rightarrow> nat \<Rightarrow> phase_result \<Rightarrow> flagdict
     \<Rightarrow> exn + flagdict" where
  "nb_flags_print X opts d isub results fl =
     (case (if nb_print_phase opts
            then (case fp_phi results of
                    None \<Rightarrow> Inl (AttributeError ''phi'')
                  | Some (p, pe) \<Rightarrow>
                      Inr (setflag ''phs_err'' (FNum pe) (setflag ''phs'' (FNum p) fl)))
            else Inr fl) of
        Inl e \<Rightarrow> Inl e
      | Inr fl1 \<Rightarrow>
          (case (if nb_print_flux opts
                 then (case lookup_global X ''fluxes'' of
                         Inl e \<Rightarrow> Inl e
                       | Inr fx \<Rightarrow>
                           (case lookup_global X ''flux_errs'' of
                              Inl e \<Rightarrow> Inl e
                            | Inr fe \<Rightarrow>
                                Inr (setflag ''flux_err'' (FNum fe)
                                       (setflag ''flux'' (FNum fx) fl1))))
                 else Inr fl1) of
             Inl e \<Rightarrow> Inl e
           | Inr fl2 \<Rightarrow>
               Inr (fold (\<lambda>kv acc. setflag (fst kv) (snd kv) acc)
                      (nb_addtnl_toa_flags opts)
                      (if nb_print_parangle opts
                       then setflag ''par_angle''
                              (FNum (d_parallactic_angles d isub)) fl2
                       else fl2))))"

text \<open>One channel (the body of the loop at line 1039): the TOA that is appended.\<close>

definition nb_channel ::
  "externals \<Rightarrow> nb_opts \<Rightarrow> string \<Rightarrow> archive_data \<Rightarrow> nat \<Rightarrow> nat \<Rightarrow> exn + TOA" where
  "nb_channel X opts mf d isub ichan =
     (let results = fit_phase_shift X (d_datafile d) isub ichan;
          P = d_Ps d isub;
          toa = d_epochs d isub + ((fp_phase results * P) + d_backend_delay d) / (3600 * 24);
          toa_err = fp_phase_err results * P * 1000000
      in case nb_flags_scat X opts P results of
           Inl e \<Rightarrow> Inl e
         | Inr fl \<Rightarrow>
             (case nb_flags_print X opts d isub results
                     (nb_flags_obs mf d isub ichan results fl) of
                Inl e \<Rightarrow> Inl e
              | Inr toa_flags \<Rightarrow>
                  Inr \<lparr> archive = d_datafile d,
                        frequency = d_freqs d isub ichan,
                        MJD = toa,
                        TOA_error = toa_err,
                        telescope = d_telescope d,
                        telescope_code = d_telescope_code d,
                        DM = None,
                        DM_error = None,
                        flags = toa_flags \<rparr>))"

fun nb_channel_loop ::
  "externals \<Rightarrow> nb_opts \<Rightarrow> archive_data \<Rightarrow> nat \<Rightarrow> nat list \<Rightarrow> GetTOAs
     \<Rightarrow> exn option \<times> GetTOAs" where
  "nb_channel_loop X opts d isub [] gt = (None, gt)"
| "nb_channel_loop X opts d isub (ichan # rest) gt =
     (if is_FITS_model gt \<and> model_weight_zero X isub ichan
      then nb_channel_loop X opts d isub rest gt
      else
        (case nb_channel X opts (modelfile gt) d isub ichan of
           Inl e \<Rightarrow> (Some e, gt)
         | Inr toa \<Rightarrow>
             nb_channel_loop X opts d isub rest (gt\<lparr>TOA_list := TOA_list gt @ [toa]\<rparr>)))"

text \<open>
  One subintegration (the body of the loop at line 943): reading a Gaussian
  model with scattering requested sets the model attributes of the object; then
  the guesses, then the channels.
\<close>

definition nb_subint ::
  "externals \<Rightarrow> nb_opts \<Rightarrow> archive_data \<Rightarrow> nat \<Rightarrow> GetTOAs \<Rightarrow> exn option \<times> GetTOAs" where
  "nb_subint X opts d isub gt =
     (if \<not> isub < d_nsub d then (Some IndexError, gt)
      else
        (let gt1 = (if \<not> is_FITS_model gt \<and> nb_fit_scat opts
                    then (case read_gmodel X of
                            Some g \<Rightarrow> gt\<lparr>self_gmodel := Some g\<rparr>
                          | None \<Rightarrow> gt)
                    else gt)
         in case nb_guesses X opts gt1 d isub of
              Inl e \<Rightarrow> (Some e, gt1)
            | Inr param_guesses \<Rightarrow>
                nb_channel_loop X opts d isub (d_ok_ichans d isub) gt1))"

fun nb_subint_loop ::
  "externals \<Rightarrow> nb_opts \<Rightarrow> archive_data \<Rightarrow> nat list \<Rightarrow> GetTOAs \<Rightarrow> exn option \<times> GetTOAs" where
  "nb_subint_loop X opts d [] gt = (None, gt)"
| "nb_subint_loop X opts d (isub # rest) gt =
     (case nb_subint X opts d isub gt of
        (Some e, gt') \<Rightarrow> (Some e, gt')
      | (None, gt') \<Rightarrow> nb_subint_loop X opts d rest gt')"

text \<open>
  The loop over the archives. After the subintegrations of an archive the
  method appends to the attributes of the object and, unless quiet, prints the
  time per TOA, dividing by \<^verbatim>\<open>len(self.TOA_list)\<close>.
\<close>

fun nb_archive_loop ::
  "externals \<Rightarrow> nb_opts \<Rightarrow> bool \<Rightarrow> (nat \<times> string) list \<Rightarrow> GetTOAs
     \<Rightarrow> exn option \<times> GetTOAs" where
  "nb_archive_loop X opts quiet [] gt = (None, gt)"
| "nb_archive_loop X opts quiet ((iarch, datafile) # rest) gt =
     (case load_data X datafile of
        Skip \<Rightarrow> nb_archive_loop X opts quiet rest gt
      | Loaded d \<Rightarrow>
          if d_ok_isubs d = [] then nb_archive_loop X opts quiet rest gt
          else
            (let gt1 = gt\<lparr>ok_idatafiles := ok_idatafiles gt @ [iarch]\<rparr> in
             case check_FITS_model X gt1 d of
               SkipArchive \<Rightarrow> nb_archive_loop X opts quiet rest gt1
             | Raise e \<Rightarrow> (Some e, gt1)
             | Use \<Rightarrow>
                 (case nb_subint_loop X opts d (d_ok_isubs d) gt1 of
                    (Some e, gt2) \<Rightarrow> (Some e, gt2)
                  | (None, gt2) \<Rightarrow>
                      (let gt3 = gt2\<lparr>ok_isubs_s := ok_isubs_s gt2 @ [d_ok_isubs d]\<rparr> in
                       if \<not> quiet \<and> TOA_list gt3 = [] then (Some ZeroDivisionError, gt3)
                       else nb_archive_loop X opts quiet rest gt3))))"

definition get_narrowband_TOAs ::
  "externals \<Rightarrow> nb_opts \<Rightarrow> string option \<Rightarrow> GetTOAs \<Rightarrow> exn option \<times> GetTOAs" where
  "get_narrowband_TOAs X opts datafile gt =
     (let quiet = (case nb_quiet opts of None \<Rightarrow> quiet_s gt | Some q \<Rightarrow> q) in
      case nb_archive_loop X opts quiet
             (enumerate 0 (case datafile of None \<Rightarrow> datafiles gt | Some f \<Rightarrow> [f])) gt of
        (Some e, gt') \<Rightarrow> (Some e, gt')
      | (None, gt') \<Rightarrow>
          if \<not> quiet \<and> ok_isubs_s gt' \<noteq> [] \<and> TOA_list gt' = []
          then (Some ZeroDivisionError, gt')
          else (None, gt'))"

subsection \<open>Example inputs\<close>

text \<open>
  One archive \<^verbatim>\<open>a.fits\<close> with three good subintegrations, which have one, two
  and three good channels, a Fit Engine that returns fixed values with a
  covariance matrix as large as the number of free parameters, and a module in
  which no name beyond those of \<^verbatim>\<open>pptoas.py\<close> is bound.
\<close>

definition ex_cov :: "nat \<Rightarrow> real list list" where
  "ex_cov k = map (\<lambda>i. map (\<lambda>j. if i = j then 1 else 1 / 2) [0..<k]) [0..<k]"

definition ex_fit :: "string \<Rightarrow> nat \<Rightarrow> nat list \<Rightarrow> fit_result" where
  "ex_fit f isub ff =
     \<lparr> phi = 1 / 4, phi_err = 1 / 1000, res_DM = 10, res_DM_err = 1 / 100,
       GM = 3, GM_err = 1 / 10, tau = 0, tau_err = 0, alpha = 0, alpha_err = 0,
       covariance_matrix = ex_cov (length (np_where ff)),
       snr = 50, red_chi2 = 1, nu_DM = 1400, nu_GM = 1400, nu_tau = 1400,
       duration = 1 \<rparr>"

definition ex_data :: archive_data where
  "ex_data =
     \<lparr> d_datafile = ''a.fits'', d_nsub = 3, d_nchan = 3, d_nbin = 4,
       d_ok_isubs = [0, 1, 2],
       d_epochs = (\<lambda>i. 58000 + real i), d_Ps = (\<lambda>i. 1 / 100),
       d_doppler_factors = (\<lambda>i. 2),
       d_freqs = (\<lambda>i c. 1000 + 100 * real c),
       d_ok_ichans = (\<lambda>i. if i = 0 then [1] else if i = 1 then [0, 2] else [0, 1, 2]),
       d_subtimes = (\<lambda>i. 60), d_parallactic_angles = (\<lambda>i. 0),
       d_backend_delay = 0, d_DM = 10, d_bw = 300,
       d_backend = ''GUPPI'', d_frontend = ''Rcvr1_2'',
       d_telescope = ''GBT'', d_telescope_code = ''1'' \<rparr>"

definition ex_X :: externals where
  "ex_X =
     \<lparr> load_data = (\<lambda>f. if f = ''a.fits'' then Loaded ex_data else Skip),
       model_data = (4, 3),
       fit_portrait_full = ex_fit,
       estimate_flux = (\<lambda>f isub r. (1, 1 / 10, 1400)),
       globals = (\<lambda>n. None),
       scattering_alpha = - 4,
       read_gmodel = None,
       phase_guess = (\<lambda>f isub t a nu rot. 0),
       fit_phase_shift = (\<lambda>f isub ichan.
          \<lparr> fp_phase = 1 / 4, fp_phase_err = 1 / 1000, fp_snr = 20, fp_red_chi2 = 1,
            fp_duration = 1, fp_phi = None, fp_cov01 = None \<rparr>),
       model_weight_zero = (\<lambda>isub ichan. False) \<rparr>"

definition ex_gt :: GetTOAs where
  "ex_gt =
     \<lparr> datafiles = [''a.fits''], modelfile = ''m.gmodel'', is_FITS_model = False,
       ok_idatafiles = [], ok_isubs_s = [], DM0s = [], DeltaDM_means = [],
       DeltaDM_errs = [], TOA_list = [], self_gmodel = None, quiet_s = True \<rparr>"

definition ex_opts :: toa_opts where
  "ex_opts =
     \<lparr> bary = True, fit_DM = True, fit_GM = True, fit_scat = False, log10_tau = True,
       fix_alpha = False, nu_refs = None, DM0 = None, print_phase = False,
       print_flux = False, print_parangle = False, addtnl_toa_flags = [] \<rparr>"

definition ex_opts_DM :: toa_opts where
  "ex_opts_DM = ex_opts\<lparr>fit_GM := False\<rparr>"

definition ex_opts_ref :: toa_opts where
  "ex_opts_ref = ex_opts_DM\<lparr>nu_refs := Some (Some 1400, None)\<rparr>"

definition ex_nb_opts :: nb_opts where
  "ex_nb_opts =
     \<lparr> nb_fit_scat = True, nb_log10_tau = True, nb_scat_guess = None,
       nb_print_phase = False, nb_print_flux = False, nb_print_parangle = False,
       nb_addtnl_toa_flags = [], nb_quiet = None \<rparr>"

definition ex_opts_fix :: toa_opts where
  "ex_opts_fix = ex_opts_DM\<lparr>fix_alpha := True\<rparr>"

section \<open>Properties\<close>

subsection \<open>The constructor and the command line\<close>

lemma too_many_msg_text:
  "too_many_msg = ''Too many archives.  See/change max_nfile(=999) in pptoas.py.''"
  by (simp add: too_many_msg_def max_nfile_def digit_char_def)

text \<open>
  Claim C7. With more than \<open>max_nfile = 999\<close> data files the constructor prints the
  diagnostic line and raises \<^verbatim>\<open>SystemExit\<close>: no object is returned, so no method
  that loads an archive or fits a subintegration can be called, and the main
  program ends there with that output only.
\<close>

theorem init_too_many_exits:
  assumes "length (read_datafiles dfs) > max_nfile"
  shows "GetTOAs_init dfs mf fits quiet = ([Line too_many_msg], Inl (SystemExit None))
       \<and> (o_datafiles opts = Some df \<longrightarrow> o_modelfile opts = Some mf \<longrightarrow>
          (case as_meta df of Some lns \<Rightarrow> MetaFile lns | None \<Rightarrow> ArchiveName df) = dfs \<longrightarrow>
          main_start as_meta is_fits quiet opts
            = ([Line too_many_msg], Inl (SystemExit None)))"
  using assms by (simp add: GetTOAs_init_def main_start_def)

theorem init_too_many_exits_witness:
  "GetTOAs_init (MetaFile (replicate 1000 ''a'')) ''m'' False False
     = ([Line too_many_msg], Inl (SystemExit None))
   \<and> main_start (\<lambda>f. Some (replicate 1000 ''a'')) (\<lambda>f. False) False
        \<lparr>o_datafiles = Some ''meta'', o_modelfile = Some ''m'',
         o_narrowband = False, o_psrchive = False\<rparr>
     = ([Line too_many_msg], Inl (SystemExit None))"
  using init_too_many_exits [of "MetaFile (replicate 1000 ''a'')" "''m''" False False
      "\<lparr>o_datafiles = Some ''meta'', o_modelfile = Some ''m'',
        o_narrowband = False, o_psrchive = False\<rparr>" "''meta''"
      "\<lambda>f. Some (replicate 1000 ''a'')" "\<lambda>f. False"]
  by (simp add: max_nfile_def)

text \<open>
  Claim C9, as the specification states it, fails: without the data file the main
  program prints the banner and the help text and leaves through
  \<^verbatim>\<open>parser.exit()\<close>, whose status is 0.
\<close>

theorem main_missing_args_status_counterexample:
  "snd (main_start (\<lambda>f. None) (\<lambda>f. False) False
          \<lparr>o_datafiles = None, o_modelfile = Some ''m'',
           o_narrowband = False, o_psrchive = False\<rparr>) = Inl (SystemExit (Some 0))
   \<and> \<not> exit_status (SystemExit (Some 0)) \<noteq> 0"
  by (simp add: main_start_def parser_exit_def)

text \<open>
  Claim C9, amended. When the data file or the model file is missing on the
  command line, the program prints the banner and the usage and help text and
  exits with status 0.
\<close>

theorem main_missing_args:
  assumes "o_datafiles opts = None \<or> o_modelfile opts = None"
  shows "main_start as_meta is_fits quiet opts
           = ([Line [], Line banner, Line [], Help usage, Line []], Inl (SystemExit (Some 0)))
         \<and> exit_status (SystemExit (Some 0)) = 0"
  using assms by (auto simp: main_start_def parser_exit_def split: option.splits)

theorem main_missing_args_witness:
  "main_start (\<lambda>f. None) (\<lambda>f. False) False
      \<lparr>o_datafiles = Some ''a.fits'', o_modelfile = None,
       o_narrowband = False, o_psrchive = False\<rparr>
     = ([Line [], Line banner, Line [], Help usage, Line []], Inl (SystemExit (Some 0)))
   \<and> exit_status (SystemExit (Some 0)) = 0"
  using main_missing_args [of "\<lparr>o_datafiles = Some ''a.fits'', o_modelfile = None,
       o_narrowband = False, o_psrchive = False\<rparr>" "\<lambda>f. None" "\<lambda>f. False" False]
  by simp

subsection \<open>The narrowband method with scattering\<close>

lemma nb_guesses_NameError:
  assumes "nb_fit_scat opts" "globals X ''nu_fit_tau'' = None"
  shows "nb_guesses X opts gt d isub = Inl (NameError ''nu_fit_tau'')"
  using assms
  by (simp add: nb_guesses_def nb_tau_alpha_guess_def lookup_global_def
           split: option.splits prod.splits sum.splits)

lemma nb_subint_scat:
  assumes "nb_fit_scat opts" "globals X ''nu_fit_tau'' = None"
  shows "fst (nb_subint X opts d isub gt)
           = Some (if isub < d_nsub d then NameError ''nu_fit_tau'' else IndexError)
         \<and> TOA_list (snd (nb_subint X opts d isub gt)) = TOA_list gt"
  using assms
  by (simp add: nb_subint_def nb_guesses_NameError Let_def split: option.splits)

lemma nb_subint_loop_scat:
  assumes "nb_fit_scat opts" "globals X ''nu_fit_tau'' = None"
  shows "TOA_list (snd (nb_subint_loop X opts d isubs gt)) = TOA_list gt
       \<and> (isubs \<noteq> [] \<longrightarrow> fst (nb_subint_loop X opts d isubs gt)
            = Some (if hd isubs < d_nsub d then NameError ''nu_fit_tau'' else IndexError))"
proof (cases isubs)
  case Nil
  then show ?thesis by simp
next
  case (Cons isub rest)
  obtain r gt' where r: "nb_subint X opts d isub gt = (r, gt')" by (cases "nb_subint X opts d isub gt")
  with nb_subint_scat [OF assms, of d isub gt]
  have "r = Some (if isub < d_nsub d then NameError ''nu_fit_tau'' else IndexError)"
       "TOA_list gt' = TOA_list gt" by auto
  with Cons r show ?thesis by simp
qed

lemma nb_archive_loop_scat:
  assumes "nb_fit_scat opts" "globals X ''nu_fit_tau'' = None"
  shows "TOA_list (snd (nb_archive_loop X opts quiet fs gt)) = TOA_list gt"
proof (induction fs arbitrary: gt)
  case Nil
  show ?case by simp
next
  case (Cons a fs)
  obtain iarch datafile where a: "a = (iarch, datafile)" by (cases a)
  show ?case
  proof (cases "load_data X datafile")
    case Skip
    with a Cons show ?thesis by simp
  next
    case (Loaded d)
    let ?gt1 = "gt\<lparr>ok_idatafiles := ok_idatafiles gt @ [iarch]\<rparr>"
    show ?thesis
    proof (cases "d_ok_isubs d = []")
      case True
      with a Loaded Cons show ?thesis by simp
    next
      case False
      note ne = this
      show ?thesis
      proof (cases "check_FITS_model X ?gt1 d")
        case Use
        obtain r gt2 where r: "nb_subint_loop X opts d (d_ok_isubs d) ?gt1 = (r, gt2)"
          by (cases "nb_subint_loop X opts d (d_ok_isubs d) ?gt1")
        with nb_subint_loop_scat [OF assms, of d "d_ok_isubs d" ?gt1] ne
        obtain e where "r = Some e" "TOA_list gt2 = TOA_list gt" by auto
        with a Loaded ne Use r show ?thesis by (simp add: Let_def)
      next
        case SkipArchive
        with a Loaded ne Cons [of ?gt1] show ?thesis by (simp add: Let_def)
      next
        case (Raise e)
        with a Loaded ne show ?thesis by (simp add: Let_def)
      qed
    qed
  qed
qed

text \<open>
  Claim C10. With \<^verbatim>\<open>fit_scat=True\<close>, and \<^verbatim>\<open>nu_fit_tau\<close> not bound at module level
  (the method itself never binds it), \<^verbatim>\<open>get_narrowband_TOAs\<close> appends no TOA,
  whatever the archives are; and when the archive it is called on loads, has a
  good subintegration and passes the model check, the call raises
  \<^verbatim>\<open>NameError\<close> for \<^verbatim>\<open>nu_fit_tau\<close> in the guesses of the first good
  subintegration (\<^verbatim>\<open>rot_prof\<close> would be read next).
\<close>

theorem narrowband_fit_scat_NameError:
  assumes "nb_fit_scat opts" and "globals X ''nu_fit_tau'' = None"
  shows "TOA_list (snd (get_narrowband_TOAs X opts datafile gt)) = TOA_list gt
       \<and> (load_data X f = Loaded d \<longrightarrow> d_ok_isubs d \<noteq> [] \<longrightarrow> hd (d_ok_isubs d) < d_nsub d \<longrightarrow>
          check_FITS_model X (gt\<lparr>ok_idatafiles := ok_idatafiles gt @ [0]\<rparr>) d = Use \<longrightarrow>
          fst (get_narrowband_TOAs X opts (Some f) gt) = Some (NameError ''nu_fit_tau''))"
proof
  show "TOA_list (snd (get_narrowband_TOAs X opts datafile gt)) = TOA_list gt"
  proof -
    let ?q = "case nb_quiet opts of None \<Rightarrow> quiet_s gt | Some q \<Rightarrow> q"
    let ?fs = "enumerate 0 (case datafile of None \<Rightarrow> datafiles gt | Some f \<Rightarrow> [f])"
    obtain r gt' where r: "nb_archive_loop X opts ?q ?fs gt = (r, gt')"
      by (cases "nb_archive_loop X opts ?q ?fs gt")
    with nb_archive_loop_scat [OF assms, of ?q ?fs gt] have "TOA_list gt' = TOA_list gt"
      by simp
    with r show ?thesis
      by (cases r) (simp_all add: get_narrowband_TOAs_def Let_def)
  qed
next
  show "load_data X f = Loaded d \<longrightarrow> d_ok_isubs d \<noteq> [] \<longrightarrow> hd (d_ok_isubs d) < d_nsub d \<longrightarrow>
          check_FITS_model X (gt\<lparr>ok_idatafiles := ok_idatafiles gt @ [0]\<rparr>) d = Use \<longrightarrow>
          fst (get_narrowband_TOAs X opts (Some f) gt) = Some (NameError ''nu_fit_tau'')"
  proof (intro impI)
    let ?gt1 = "gt\<lparr>ok_idatafiles := ok_idatafiles gt @ [0]\<rparr>"
    assume h: "load_data X f = Loaded d" "d_ok_isubs d \<noteq> []" "hd (d_ok_isubs d) < d_nsub d"
      "check_FITS_model X ?gt1 d = Use"
    obtain r gt2 where r: "nb_subint_loop X opts d (d_ok_isubs d) ?gt1 = (r, gt2)"
      by (cases "nb_subint_loop X opts d (d_ok_isubs d) ?gt1")
    with nb_subint_loop_scat [OF assms, of d "d_ok_isubs d" ?gt1] h
    have "r = Some (NameError ''nu_fit_tau'')" by auto
    with h r show "fst (get_narrowband_TOAs X opts (Some f) gt) = Some (NameError ''nu_fit_tau'')"
      by (simp add: get_narrowband_TOAs_def Let_def)
  qed
qed


theorem narrowband_fit_scat_NameError_witness:
  "nb_fit_scat ex_nb_opts \<and> globals ex_X ''nu_fit_tau'' = None
   \<and> TOA_list (snd (get_narrowband_TOAs ex_X ex_nb_opts None ex_gt)) = TOA_list ex_gt
   \<and> fst (get_narrowband_TOAs ex_X ex_nb_opts (Some ''a.fits'') ex_gt)
       = Some (NameError ''nu_fit_tau'')"
  using narrowband_fit_scat_NameError [of ex_nb_opts ex_X None ex_gt "''a.fits''" ex_data]
  by (simp add: ex_nb_opts_def ex_X_def ex_data_def ex_gt_def check_FITS_model_def)

subsection \<open>The channel-zapping evaluation\<close>

lemma set_snr_pass:
  "set (snr_pass snrs t cs b) = set b \<union> {c \<in> set cs. snrs c < t}"
  by (induction cs arbitrary: b) auto

lemma distinct_snr_pass: "distinct b \<Longrightarrow> distinct (snr_pass snrs t cs b)"
  by (induction cs arbitrary: b) auto

lemma set_first_pass:
  "set (first_pass snrs chi T R t cs b) = set b \<union> {c \<in> set cs. zap_first snrs chi T R t c}"
  by (induction cs arbitrary: b) (auto simp: zap_first_def split: option.splits)

lemma distinct_first_pass:
  "distinct (b @ cs) \<Longrightarrow> distinct (first_pass snrs chi T R t cs b)"
proof (induction cs arbitrary: b)
  case Nil
  then show ?case by simp
next
  case (Cons c cs)
  then have "distinct ((b @ [c]) @ cs)" "distinct (b @ cs)" by auto
  with Cons.IH show ?case by (auto split: option.splits)
qed

lemma distinct_subset_length_eq:
  assumes "distinct xs" "distinct ys" "set xs \<subseteq> set ys" "length xs = length ys"
  shows "set xs = set ys"
proof -
  have "card (set xs) = card (set ys)" using assms by (simp add: distinct_card)
  with assms(3) show ?thesis by (simp add: card_subset_eq)
qed

lemma snr_loop_post:
  assumes "distinct ok" "distinct bad" "set bad \<subseteq> set ok" "old_len = length bad"
    and "\<not> added_new \<Longrightarrow> zap_post snrs T ok bad"
  shows "zap_post snrs T ok (snr_loop snrs T ok bad old_len added_new)"
  using assms
proof (induction snrs T ok bad old_len added_new rule: snr_loop.induct)
  case (1 snrs T ok bad old_len added_new)
  show ?case
  proof (cases "added_new \<and> int (length ok) - int (length bad) \<noteq> 0")
    case False
    note stop = this
    have "zap_post snrs T ok bad"
    proof (cases added_new)
      case False
      with 1(6) show ?thesis by simp
    next
      case True
      with stop have "length bad = length ok" by simp
      with 1(2,3,4) have "set bad = set ok" by (intro distinct_subset_length_eq) auto
      with 1(3,4) show ?thesis by (simp add: zap_post_def)
    qed
    moreover have "snr_loop snrs T ok bad old_len added_new = bad"
      using stop by (subst snr_loop.simps) auto
    ultimately show ?thesis by simp
  next
    case True
    define thr where "thr = channel_SNR_threshold T (int (length ok) - int (length bad))"
    define bad' where "bad' = snr_pass snrs thr ok bad"
    have d': "distinct bad'" using 1(3) by (simp add: bad'_def distinct_snr_pass)
    have s': "set bad' \<subseteq> set ok" using 1(4) by (auto simp: bad'_def set_snr_pass)
    have sub: "set bad \<subseteq> set bad'" by (auto simp: bad'_def set_snr_pass)
    have fixd: "zap_post snrs T ok bad'" if stop: "\<not> (int (length bad') - int old_len \<noteq> 0)"
    proof -
      from stop 1(5) have len: "length bad = length bad'" by simp
      with 1(3) d' sub have eq: "set bad = set bad'" by (intro distinct_subset_length_eq) auto
      have "thr \<le> snrs c" if "c \<in> set ok" "c \<notin> set bad'" for c
      proof (rule ccontr)
        assume "\<not> thr \<le> snrs c"
        with that(1) have "c \<in> set bad'" by (simp add: bad'_def set_snr_pass)
        with that(2) show False by simp
      qed
      moreover have "thr = sqrt (T ^ 2 / (real (length ok) - real (length bad')))"
        using len by (simp add: thr_def channel_SNR_threshold_def)
      ultimately show ?thesis using d' s' by (simp add: zap_post_def)
    qed
    have "zap_post snrs T ok
            (snr_loop snrs T ok bad' (length bad') (int (length bad') - int old_len \<noteq> 0))"
      unfolding bad'_def thr_def
    proof (rule "1.IH" [OF True refl refl])
      show "distinct ok" by (rule "1.prems")
      show "distinct (snr_pass snrs (channel_SNR_threshold T (int (length ok) - int (length bad))) ok bad)"
        using d' by (simp add: bad'_def thr_def)
      show "set (snr_pass snrs (channel_SNR_threshold T (int (length ok) - int (length bad))) ok bad) \<subseteq> set ok"
        using s' by (simp add: bad'_def thr_def)
      show "length (snr_pass snrs (channel_SNR_threshold T (int (length ok) - int (length bad))) ok bad)
            = length (snr_pass snrs (channel_SNR_threshold T (int (length ok) - int (length bad))) ok bad)"
        by simp
      show "zap_post snrs T ok (snr_pass snrs (channel_SNR_threshold T (int (length ok) - int (length bad))) ok bad)"
        if "\<not> (int (length (snr_pass snrs (channel_SNR_threshold T (int (length ok) - int (length bad))) ok bad)) - int old_len \<noteq> 0)"
        using fixd that by (simp add: bad'_def thr_def)
    qed
    then show ?thesis
      using True by (subst snr_loop.simps) (simp add: Let_def thr_def bad'_def)
  qed
qed


lemma length_retained:
  assumes "distinct ok" "distinct bad" "set bad \<subseteq> set ok"
  shows "length (filter (\<lambda>c. c \<notin> set bad) ok) + length bad = length ok"
proof -
  have dk: "distinct (filter (\<lambda>c. c \<notin> set bad) ok)" using assms(1) by simp
  have "length (filter (\<lambda>c. c \<notin> set bad) ok) = card (set (filter (\<lambda>c. c \<notin> set bad) ok))"
    using distinct_card [OF dk] by simp
  also have "set (filter (\<lambda>c. c \<notin> set bad) ok) = set ok - set bad" by auto
  also have "card (set ok - set bad) = card (set ok) - card (set bad)"
    using assms(3) by (simp add: card_Diff_subset)
  finally have "length (filter (\<lambda>c. c \<notin> set bad) ok) = length ok - length bad"
    using assms(1,2) by (simp add: distinct_card)
  moreover have "length bad \<le> length ok"
    using assms by (metis card_mono distinct_card finite_set)
  ultimately show ?thesis by simp
qed

lemma sum_list_lower:
  fixes f :: "'a \<Rightarrow> real"
  assumes "\<And>x. x \<in> set xs \<Longrightarrow> a \<le> f x"
  shows "real (length xs) * a \<le> sum_list (map f xs)"
  using assms
proof (induction xs)
  case Nil
  show ?case by simp
next
  case (Cons x xs)
  have "a \<le> f x" using Cons.prems by simp
  moreover have "real (length xs) * a \<le> sum_list (map f xs)"
    using Cons by simp
  ultimately show ?case by (simp add: algebra_simps)
qed

lemma zap_post_aggregate:
  assumes "distinct ok" "zap_post snrs T ok bad" "\<not> set ok \<subseteq> set bad"
  shows "T ^ 2 \<le> (\<Sum>c\<leftarrow>filter (\<lambda>c. c \<notin> set bad) ok. (snrs c) ^ 2)"
proof -
  let ?keep = "filter (\<lambda>c. c \<notin> set bad) ok"
  let ?n = "real (length ok) - real (length bad)"
  from assms(2) have d: "distinct bad" and s: "set bad \<subseteq> set ok"
    by (simp_all add: zap_post_def)
  have len: "real (length ?keep) = ?n"
    using length_retained [OF assms(1) d s] by linarith
  from assms(3) have "?keep \<noteq> []" by (auto simp: filter_empty_conv)
  then have npos: "0 < ?n" using len by (metis length_greater_0_conv of_nat_0_less_iff)
  have ge: "sqrt (T ^ 2 / ?n) \<le> snrs c" if "c \<in> set ?keep" for c
    using assms(2,3) that by (auto simp: zap_post_def)
  have "T ^ 2 / ?n \<le> (snrs c) ^ 2" if "c \<in> set ?keep" for c
  proof -
    have nn: "0 \<le> T ^ 2 / ?n" using npos by simp
    have "0 \<le> sqrt (T ^ 2 / ?n)" using nn by simp
    with ge [OF that] have "(sqrt (T ^ 2 / ?n)) ^ 2 \<le> (snrs c) ^ 2"
      by (intro power_mono) auto
    with nn show ?thesis by simp
  qed
  then have "real (length ?keep) * (T ^ 2 / ?n) \<le> (\<Sum>c\<leftarrow>?keep. (snrs c) ^ 2)"
    by (rule sum_list_lower)
  with len npos show ?thesis by simp
qed

lemma zap_subint_post:
  assumes "T \<noteq> 0" "distinct ok" "ok \<noteq> []"
  shows "\<exists>bad. channels_to_zap_subint snrs chi T R True ok = Inr bad \<and> zap_post snrs T ok bad"
proof -
  define thr where "thr = channel_SNR_threshold T (int (length ok))"
  define bad0 where "bad0 = first_pass snrs chi T R thr ok []"
  have d0: "distinct bad0" using assms(2) by (simp add: bad0_def distinct_first_pass)
  have s0: "set bad0 \<subseteq> set ok" by (auto simp: bad0_def set_first_pass)
  show ?thesis
  proof (cases "length bad0 \<noteq> 0")
    case True
    have "zap_post snrs T ok (snr_loop snrs T ok bad0 (length bad0) True)"
      using assms(2) d0 s0 by (intro snr_loop_post) auto
    with True assms show ?thesis
      by (simp add: channels_to_zap_subint_def Let_def thr_def bad0_def)
  next
    case False
    then have e: "bad0 = []" by simp
    have "thr \<le> snrs c" if "c \<in> set ok" for c
    proof (rule ccontr)
      assume "\<not> thr \<le> snrs c"
      with that assms(1) have "c \<in> set bad0"
        by (auto simp: bad0_def set_first_pass zap_first_def split: option.splits)
      with e show False by simp
    qed
    then have "zap_post snrs T ok bad0"
      using e by (simp add: zap_post_def thr_def channel_SNR_threshold_def)
    with e assms show ?thesis
      by (simp add: channels_to_zap_subint_def Let_def thr_def bad0_def)
  qed
qed

text \<open>
  Claim C6. For a subintegration with distinct good channels (at least one), a
  nonzero \<^verbatim>\<open>SNR_threshold\<close> and \<^verbatim>\<open>iterate=True\<close>, the evaluation returns (the loop
  is a total function: it terminates), and in the returned \<^verbatim>\<open>bad_ichans\<close> either
  every good channel is bad, or every retained channel has an S/N of at least
  \<open>sqrt (SNR_threshold\<^sup>2 / n)\<close> for the number \<open>n\<close> of retained channels, so that the
  squares of the retained S/N sum to at least \<open>SNR_threshold\<^sup>2\<close>.
\<close>

theorem zap_iteration_fixed_point:
  assumes "SNR_threshold \<noteq> 0" and "distinct ok_ichans" and "ok_ichans \<noteq> []"
  shows "\<exists>bad. channels_to_zap_subint channel_snrs red_chi2_of SNR_threshold
                 rchi2_threshold True ok_ichans = Inr bad
          \<and> (set ok_ichans \<subseteq> set bad
             \<or> ((\<forall>c \<in> set ok_ichans. c \<notin> set bad \<longrightarrow>
                    sqrt (SNR_threshold ^ 2 / (real (length ok_ichans) - real (length bad)))
                      \<le> channel_snrs c)
                \<and> SNR_threshold ^ 2
                    \<le> (\<Sum>c\<leftarrow>filter (\<lambda>c. c \<notin> set bad) ok_ichans. (channel_snrs c) ^ 2)))"
proof -
  from zap_subint_post [OF assms] obtain bad where
    b: "channels_to_zap_subint channel_snrs red_chi2_of SNR_threshold
          rchi2_threshold True ok_ichans = Inr bad"
    and p: "zap_post channel_snrs SNR_threshold ok_ichans bad" by blast
  show ?thesis
  proof (cases "set ok_ichans \<subseteq> set bad")
    case True
    with b show ?thesis by blast
  next
    case False
    with p have "\<forall>c \<in> set ok_ichans. c \<notin> set bad \<longrightarrow>
        sqrt (SNR_threshold ^ 2 / (real (length ok_ichans) - real (length bad))) \<le> channel_snrs c"
      by (simp add: zap_post_def)
    moreover note zap_post_aggregate [OF assms(2) p False]
    ultimately show ?thesis using b by blast
  qed
qed


theorem zap_iteration_fixed_point_witness:
  "(8::real) \<noteq> 0 \<and> distinct [0, 1, 2::nat] \<and> [0, 1, 2::nat] \<noteq> []
   \<and> (\<exists>bad. channels_to_zap_subint (\<lambda>c. [4, 5, 10] ! c) (\<lambda>c. Some 1) 8 (13 / 10) True
               [0, 1, 2] = Inr bad
          \<and> (set [0, 1, 2] \<subseteq> set bad
             \<or> ((\<forall>c \<in> set [0, 1, 2]. c \<notin> set bad \<longrightarrow>
                    sqrt (8 ^ 2 / (real (length [0, 1, 2::nat]) - real (length bad)))
                      \<le> [4, 5, 10] ! c)
                \<and> (8::real) ^ 2
                    \<le> (\<Sum>c\<leftarrow>filter (\<lambda>c. c \<notin> set bad) [0, 1, 2]. ([4, 5, 10] ! c) ^ 2))))"
proof -
  have h: "(8::real) \<noteq> 0" "distinct [0, 1, 2::nat]" "[0, 1, 2::nat] \<noteq> []" by simp_all
  show ?thesis
    by (intro conjI h
          zap_iteration_fixed_point [OF h, of "\<lambda>c. [4, 5, 10] ! c" "\<lambda>c. Some 1" "13 / 10"])
qed

subsection \<open>One subintegration of \<^verbatim>\<open>get_TOAs\<close>\<close>

lemma doppler_correction_other:
  "covariance_matrix (fst (doppler_correction b df ff r)) = covariance_matrix r"
  "phi (fst (doppler_correction b df ff r)) = phi r"
  "res_DM_err (fst (doppler_correction b df ff r)) = res_DM_err r"
  by (simp_all add: doppler_correction_def Let_def)

lemma doppler_correction_vals:
  "res_DM (fst (doppler_correction b df ff r))
     = (if b \<and> ff ! 1 \<noteq> 0 then res_DM r * df else res_DM r)"
  "GM (fst (doppler_correction b df ff r))
     = (if b \<and> ff ! 2 \<noteq> 0 then GM r * df ^ 3 else GM r)"
  "snd (doppler_correction b df ff r) = (if b then df else 1)"
  by (simp_all add: doppler_correction_def Let_def)

text \<open>What a subintegration that was fit leaves.\<close>

lemma fit_subint_Inr:
  assumes "fit_subint X opts mf d isub L ff = Inr (L', toa)"
  defines "r0 \<equiv> fit_portrait_full X (d_datafile d) isub ff"
  defines "dc \<equiv> doppler_correction (bary opts) (d_doppler_factors d isub) ff r0"
  shows "fit_flags L' = Some ff"
    and "MJD toa = fst (calc_TOA (d_epochs d isub) (d_Ps d isub) (d_backend_delay d) r0)"
    and "TOA_error toa = snd (calc_TOA (d_epochs d isub) (d_Ps d isub) (d_backend_delay d) r0)"
    and "TOAs L' = (TOAs L)[isub := MJD toa]"
    and "TOA_errs L' = (TOA_errs L)[isub := TOA_error toa]"
    and "DMs L' = (DMs L)[isub := res_DM (fst dc)]"
    and "DM_errs L' = (DM_errs L)[isub := res_DM_err r0]"
    and "GMs L' = (GMs L)[isub := GM (fst dc)]"
    and "DM toa = (if ff ! 1 = 0 then None else Some (res_DM (fst dc)))"
    and "isub < length (covariances L)"
    and "\<exists>C. store_covariance (covariances L ! isub) (covariance_matrix r0) ff = Inr C
            \<and> covariances L' = (covariances L)[isub := C]"
    and "compile_toa_flags opts mf d isub ff (snd dc) (fst dc)
           (if print_flux opts then estimate_flux X (d_datafile d) isub (fst dc) else (0, 0, 0))
         = Inr (flags toa)"
  using assms(1) unfolding r0_def dc_def
  by (auto simp: fit_subint_def Let_def split_def doppler_correction_other
           split: if_splits sum.splits)

lemma process_subint_Inr:
  assumes "process_subint X opts mf d isub L = Inr (L', toa)"
  shows "\<exists>ff. select_fit_flags opts (length (freqsx d isub)) (fit_flags L) = Inr ff
           \<and> fit_subint X opts mf d isub L ff = Inr (L', toa)"
    and "isub < d_nsub d" and "freqsx d isub \<noteq> []"
  using assms by (auto simp: process_subint_def split: if_splits sum.splits)


lemma map_of_setflag: "map_of (setflag k v fl) = (map_of fl)(k \<mapsto> v)"
  by (simp add: setflag_def update_conv')

lemma map_of_fold_setflag:
  "k \<notin> fst ` set al \<Longrightarrow>
   map_of (fold (\<lambda>kv acc. setflag (fst kv) (snd kv) acc) al fl) k = map_of fl k"
  by (induction al arbitrary: fl) (auto simp: map_of_setflag)

lemma map_of_fold_setflag_None:
  "map_of (fold (\<lambda>kv acc. setflag (fst kv) (snd kv) acc) al fl) k = None
     \<longleftrightarrow> k \<notin> fst ` set al \<and> map_of fl k = None"
  by (induction al arbitrary: fl) (auto simp: map_of_setflag)

lemma key_in_flags: "k \<notin> fst ` set fl \<longleftrightarrow> map_of fl k = None"
  by (metis domIff dom_map_of_conv_image_fst)

lemma flags_fit_gm:
  "map_of (flags_fit opts ff P df r []) ''gm'' = (if ff ! 2 \<noteq> 0 then Some (FNum (GM r)) else None)"
  "map_of (flags_fit opts ff P df r []) ''phi_DM_cov'' = None"
  by (simp_all add: flags_fit_def Let_def map_of_setflag)

lemma flags_obs_other:
  "map_of (flags_obs mf d isub r fl) ''gm'' = map_of fl ''gm''"
  "map_of (flags_obs mf d isub r fl) ''phi_DM_cov'' = map_of fl ''phi_DM_cov''"
  by (simp_all add: flags_obs_def Let_def map_of_setflag)

lemma flags_cov_keys:
  assumes "flags_cov opts ff r fl = Inr fl'"
  shows "map_of fl' ''gm'' = map_of fl ''gm''"
    and "map_of fl ''phi_DM_cov'' = None \<Longrightarrow>
         map_of fl' ''phi_DM_cov'' = None
           \<longleftrightarrow> \<not> (nu_ref_DM opts \<noteq> None \<and> list_all (\<lambda>x. x \<noteq> 0) (take 2 ff))"
  using assms by (auto simp: flags_cov_def map_of_setflag split: if_splits sum.splits)

lemma flags_print_other:
  assumes "k = ''gm'' \<or> k = ''phi_DM_cov''"
  shows "k \<notin> fst ` set (addtnl_toa_flags opts) \<Longrightarrow>
         map_of (flags_print opts d isub r flux fl) k = map_of fl k"
    and "map_of (flags_print opts d isub r flux fl) k = None
           \<longleftrightarrow> k \<notin> fst ` set (addtnl_toa_flags opts) \<and> map_of fl k = None"
proof -
  define fl3 where "fl3 =
     (let fl1 = (if print_phase opts
                 then setflag ''phs_err'' (FNum (phi_err r))
                        (setflag ''phs'' (FNum (phi r)) fl)
                 else fl);
          fl2 = (if print_flux opts
                 then setflag ''flux_ref_freq'' (FNum (snd (snd flux)))
                        (setflag ''flux_err'' (FNum (fst (snd flux)))
                           (setflag ''flux'' (FNum (fst flux)) fl1))
                 else fl1)
      in (if print_parangle opts
          then setflag ''par_angle'' (FNum (d_parallactic_angles d isub)) fl2
          else fl2))"
  have k3: "map_of fl3 k = map_of fl k"
    using assms by (auto simp: fl3_def Let_def map_of_setflag)
  have eq: "flags_print opts d isub r flux fl
            = fold (\<lambda>kv acc. setflag (fst kv) (snd kv) acc) (addtnl_toa_flags opts) fl3"
    by (simp add: flags_print_def fl3_def Let_def)
  show "k \<notin> fst ` set (addtnl_toa_flags opts) \<Longrightarrow>
         map_of (flags_print opts d isub r flux fl) k = map_of fl k"
    unfolding eq by (simp add: map_of_fold_setflag k3)
  show "map_of (flags_print opts d isub r flux fl) k = None
           \<longleftrightarrow> k \<notin> fst ` set (addtnl_toa_flags opts) \<and> map_of fl k = None"
    unfolding eq map_of_fold_setflag_None k3 ..
qed

lemma compile_toa_flags_gm:
  assumes "compile_toa_flags opts mf d isub ff df r flux = Inr fl"
    and "''gm'' \<notin> fst ` set (addtnl_toa_flags opts)"
  shows "map_of fl ''gm'' = (if ff ! 2 \<noteq> 0 then Some (FNum (GM r)) else None)"
  using assms
  by (auto simp: compile_toa_flags_def flags_print_other flags_cov_keys(1) flags_obs_other
        flags_fit_gm split: sum.splits)

lemma compile_toa_flags_keys:
  assumes "compile_toa_flags opts mf d isub ff df r flux = Inr fl"
  shows "''gm'' \<in> fst ` set fl \<longleftrightarrow> ff ! 2 \<noteq> 0 \<or> ''gm'' \<in> fst ` set (addtnl_toa_flags opts)"
    and "''phi_DM_cov'' \<in> fst ` set fl
           \<longleftrightarrow> (nu_ref_DM opts \<noteq> None \<and> list_all (\<lambda>x. x \<noteq> 0) (take 2 ff))
               \<or> ''phi_DM_cov'' \<in> fst ` set (addtnl_toa_flags opts)"
proof -
  from assms obtain fl1 where
    c: "flags_cov opts ff r (flags_obs mf d isub r (flags_fit opts ff (d_Ps d isub) df r [])) = Inr fl1"
    and f: "fl = flags_print opts d isub r flux fl1"
    by (auto simp: compile_toa_flags_def split: sum.splits)
  have g1: "map_of fl1 ''gm'' = None \<longleftrightarrow> \<not> ff ! 2 \<noteq> 0"
    using flags_cov_keys(1) [OF c] by (simp add: flags_obs_other flags_fit_gm)
  have p1: "map_of fl1 ''phi_DM_cov'' = None
              \<longleftrightarrow> \<not> (nu_ref_DM opts \<noteq> None \<and> list_all (\<lambda>x. x \<noteq> 0) (take 2 ff))"
    using flags_cov_keys(2) [OF c] by (simp add: flags_obs_other flags_fit_gm)
  have "''gm'' \<notin> fst ` set fl
          \<longleftrightarrow> ''gm'' \<notin> fst ` set (addtnl_toa_flags opts) \<and> \<not> ff ! 2 \<noteq> 0"
    by (simp only: f key_in_flags flags_print_other(2) [OF disjI1 [OF refl]] g1)
  then show "''gm'' \<in> fst ` set fl
          \<longleftrightarrow> ff ! 2 \<noteq> 0 \<or> ''gm'' \<in> fst ` set (addtnl_toa_flags opts)"
    by blast
  have "''phi_DM_cov'' \<notin> fst ` set fl
          \<longleftrightarrow> ''phi_DM_cov'' \<notin> fst ` set (addtnl_toa_flags opts)
              \<and> \<not> (nu_ref_DM opts \<noteq> None \<and> list_all (\<lambda>x. x \<noteq> 0) (take 2 ff))"
    by (simp only: f key_in_flags flags_print_other(2) [OF disjI2 [OF refl]] p1)
  then show "''phi_DM_cov'' \<in> fst ` set fl
           \<longleftrightarrow> (nu_ref_DM opts \<noteq> None \<and> list_all (\<lambda>x. x \<noteq> 0) (take 2 ff))
               \<or> ''phi_DM_cov'' \<in> fst ` set (addtnl_toa_flags opts)"
    by blast
qed


lemma compile_toa_flags_succeeds:
  assumes "nu_ref_DM opts = None \<or> (\<exists>c. get_item (covariance_matrix r) 0 1 = Inr c)"
  shows "\<exists>fl. compile_toa_flags opts mf d isub ff df r flux = Inr fl"
  using assms by (auto simp: compile_toa_flags_def flags_cov_def)

lemma store_covariance_succeeds:
  assumes "shape M = shape S \<or> shape M = (1, 1)"
  shows "\<exists>C. store_covariance S M ff = Inr C"
  using assms by (auto simp: store_covariance_def np_assign_def split: prod.splits)

lemma process_subint_succeeds:
  assumes "isub < d_nsub d" and "freqsx d isub \<noteq> []"
    and "select_fit_flags opts (length (freqsx d isub)) (fit_flags L) = Inr ff"
    and "isub < length (covariances L)"
    and "shape (covariance_matrix (fit_portrait_full X (d_datafile d) isub ff))
           = shape (covariances L ! isub)
         \<or> shape (covariance_matrix (fit_portrait_full X (d_datafile d) isub ff)) = (1, 1)"
    and "nu_ref_DM opts = None
         \<or> (\<exists>c. get_item (covariance_matrix (fit_portrait_full X (d_datafile d) isub ff)) 0 1
                  = Inr c)"
  shows "\<exists>L' toa. process_subint X opts mf d isub L = Inr (L', toa)"
proof -
  let ?r0 = "fit_portrait_full X (d_datafile d) isub ff"
  let ?dc = "doppler_correction (bary opts) (d_doppler_factors d isub) ff ?r0"
  obtain C where C: "store_covariance (covariances L ! isub) (covariance_matrix ?r0) ff = Inr C"
    using store_covariance_succeeds [OF assms(5)] by blast
  have c: "nu_ref_DM opts = None \<or> (\<exists>c. get_item (covariance_matrix (fst ?dc)) 0 1 = Inr c)"
    using assms(6) by (simp add: doppler_correction_other)
  from compile_toa_flags_succeeds [OF c] obtain fl where
    "compile_toa_flags opts mf d isub ff (snd ?dc) (fst ?dc)
      (if print_flux opts then estimate_flux X (d_datafile d) isub (fst ?dc) else (0, 0, 0)) = Inr fl"
    by blast
  with assms(1-4) C show ?thesis
    by (simp add: process_subint_def fit_subint_def Let_def split_def doppler_correction_other)
qed

text \<open>
  Claim C3. For every subintegration that was fit (the body returns a TOA), the
  TOA is the epoch of the subintegration plus (fitted phase times period plus
  backend delay) divided by the 86400 seconds of a day, and its uncertainty is
  the uncertainty of the fitted phase times the period times \<open>10\<^sup>6\<close>, that is in
  microseconds for a period in seconds; both are what is stored in the arrays.
\<close>

theorem TOA_of_fitted_phase:
  assumes "process_subint X opts mf d isub L = Inr (L', toa)"
  shows "\<exists>ff. fit_flags L' = Some ff
          \<and> MJD toa = d_epochs d isub
               + (phi (fit_portrait_full X (d_datafile d) isub ff) * d_Ps d isub
                    + d_backend_delay d) / 86400
          \<and> TOA_error toa
               = phi_err (fit_portrait_full X (d_datafile d) isub ff) * d_Ps d isub * 1000000
          \<and> TOAs L' = (TOAs L)[isub := MJD toa]
          \<and> TOA_errs L' = (TOA_errs L)[isub := TOA_error toa]"
proof -
  from process_subint_Inr(1) [OF assms] obtain ff where
    f: "fit_subint X opts mf d isub L ff = Inr (L', toa)" by blast
  show ?thesis
    using fit_subint_Inr(1-5) [OF f] by (simp add: calc_TOA_def)
qed

text \<open>
  Claim C2. With \<^verbatim>\<open>bary=True\<close>, for a subintegration whose mask has DM free, the DM
  of the TOA and of the array is the fitted DM times the Doppler factor of the
  subintegration, and when GM is free the GM of the array and of the \<^verbatim>\<open>gm\<close> flag
  (unless the caller's flags overwrite it) is the fitted GM times the Doppler
  factor cubed; with \<^verbatim>\<open>bary=False\<close> both are the fitted values.
\<close>

theorem doppler_multiplies:
  assumes "process_subint X opts mf d isub L = Inr (L', toa)"
  shows "\<exists>ff. fit_flags L' = Some ff
          \<and> (bary opts \<longrightarrow>
               (ff ! 1 \<noteq> 0 \<longrightarrow>
                  DM toa = Some (res_DM (fit_portrait_full X (d_datafile d) isub ff)
                                  * d_doppler_factors d isub)
                  \<and> DMs L' = (DMs L)[isub := res_DM (fit_portrait_full X (d_datafile d) isub ff)
                                               * d_doppler_factors d isub])
               \<and> (ff ! 2 \<noteq> 0 \<longrightarrow>
                  GMs L' = (GMs L)[isub := GM (fit_portrait_full X (d_datafile d) isub ff)
                                             * d_doppler_factors d isub ^ 3]
                  \<and> (''gm'' \<notin> fst ` set (addtnl_toa_flags opts) \<longrightarrow>
                       map_of (flags toa) ''gm''
                         = Some (FNum (GM (fit_portrait_full X (d_datafile d) isub ff)
                                        * d_doppler_factors d isub ^ 3)))))
          \<and> (\<not> bary opts \<longrightarrow>
               DMs L' = (DMs L)[isub := res_DM (fit_portrait_full X (d_datafile d) isub ff)]
               \<and> GMs L' = (GMs L)[isub := GM (fit_portrait_full X (d_datafile d) isub ff)]
               \<and> (ff ! 1 \<noteq> 0 \<longrightarrow>
                    DM toa = Some (res_DM (fit_portrait_full X (d_datafile d) isub ff)))
               \<and> (ff ! 2 \<noteq> 0 \<longrightarrow> ''gm'' \<notin> fst ` set (addtnl_toa_flags opts) \<longrightarrow>
                    map_of (flags toa) ''gm''
                      = Some (FNum (GM (fit_portrait_full X (d_datafile d) isub ff)))))"
proof -
  from process_subint_Inr(1) [OF assms] obtain ff where
    f: "fit_subint X opts mf d isub L ff = Inr (L', toa)" by blast
  note r = fit_subint_Inr [OF f]
  have gm: "''gm'' \<notin> fst ` set (addtnl_toa_flags opts) \<Longrightarrow> ff ! 2 \<noteq> 0 \<Longrightarrow>
      map_of (flags toa) ''gm''
        = Some (FNum (GM (fst (doppler_correction (bary opts) (d_doppler_factors d isub) ff
                                 (fit_portrait_full X (d_datafile d) isub ff)))))"
    using compile_toa_flags_gm [OF r(12)] by simp
  show ?thesis
    using r(1,6,8,9) gm by (auto simp: doppler_correction_vals)
qed

text \<open>
  Claim C8, amended. With \<^verbatim>\<open>fit_DM=True\<close> and \<^verbatim>\<open>fit_GM=False\<close>, the TOA of a
  subintegration with at least two good channels carries a \<^verbatim>\<open>gm\<close> flag only when
  the caller supplies one in \<^verbatim>\<open>addtnl_toa_flags\<close>, and carries a \<^verbatim>\<open>phi_DM_cov\<close>
  flag exactly when an output reference frequency for the TOAs was given
  (\<^verbatim>\<open>nu_refs\<close> with a first component that is not \<^verbatim>\<open>None\<close>) or the caller supplies
  that flag.
\<close>

theorem wideband_DM_only_flags:
  assumes "fit_DM opts" and "\<not> fit_GM opts" and "2 \<le> length (freqsx d isub)"
    and "process_subint X opts mf d isub L = Inr (L', toa)"
  shows "(''gm'' \<in> fst ` set (flags toa) \<longleftrightarrow> ''gm'' \<in> fst ` set (addtnl_toa_flags opts))
       \<and> (''phi_DM_cov'' \<in> fst ` set (flags toa)
            \<longleftrightarrow> nu_ref_DM opts \<noteq> None \<or> ''phi_DM_cov'' \<in> fst ` set (addtnl_toa_flags opts))"
proof -
  from process_subint_Inr(1) [OF assms(4)] obtain ff where
    s: "select_fit_flags opts (length (freqsx d isub)) (fit_flags L) = Inr ff"
    and f: "fit_subint X opts mf d isub L ff = Inr (L', toa)" by blast
  from s assms(1-3) have ff: "ff = self_fit_flags opts"
    by (auto simp: select_fit_flags_def split: if_splits)
  then have m: "ff ! 2 = 0" "list_all (\<lambda>x. x \<noteq> 0) (take 2 ff)"
    using assms(1,2) by (simp_all add: self_fit_flags_def numeral_2_eq_2)
  show ?thesis
    using compile_toa_flags_keys [OF fit_subint_Inr(12) [OF f]] m by simp
qed

subsection \<open>The example inputs\<close>

lemma np_where_ex:
  "np_where [1, 0, 0, 0, 0] = [0]" "np_where [1, 1, 0, 0, 0] = [0, 1]"
  "np_where [1, 1, 1, 0, 0] = [0, 1, 2]"
  "np_where [Suc 0, 0, 0, 0, 0] = [0]" "np_where [Suc 0, Suc 0, 0, 0, 0] = [0, 1]"
  "np_where [Suc 0, Suc 0, Suc 0, 0, 0] = [0, 1, 2]"
  by (simp_all add: np_where_def upt_rec)

lemma ex_freqsx:
  "freqsx ex_data 0 = [1100]" "freqsx ex_data 1 = [1000, 1200]"
  "freqsx ex_data (Suc 0) = [1000, 1200]" "freqsx ex_data 2 = [1000, 1100, 1200]"
  by (simp_all add: freqsx_def ex_data_def)

lemma ex_masks:
  "self_fit_flags ex_opts = [1, 1, 1, 0, 0]" "self_fit_flags ex_opts_DM = [1, 1, 0, 0, 0]"
  "self_fit_flags ex_opts_ref = [1, 1, 0, 0, 0]"
  "nfit ex_opts = 3" "nfit ex_opts_DM = 2" "nfit ex_opts_ref = 2"
  by (simp_all add: self_fit_flags_def nfit_def ex_opts_def ex_opts_DM_def ex_opts_ref_def
        fit_tau_def fit_alpha_def)

lemma shape_zeros: "0 < n \<Longrightarrow> shape (zeros n) = (n, n)"
  by (cases n) (simp_all add: shape_def zeros_def)

lemma shape_ex_cov: "0 < k \<Longrightarrow> shape (ex_cov k) = (k, k)"
  by (simp add: shape_def ex_cov_def hd_map)

lemma ex_cov_item:
  "get_item (ex_cov 2) 0 1 = Inr (1 / 2)"
  "get_item (ex_cov (Suc (Suc 0))) 0 (Suc 0) = Inr (1 / 2)"
  by (simp_all add: get_item_def ex_cov_def upt_rec)

lemma ex_init_cov:
  "isub < n \<Longrightarrow> covariances (init_locals opts n loc) ! isub = zeros (nfit opts)"
  "length (covariances (init_locals opts n loc)) = n"
  "fit_flags (init_locals opts n loc) = loc"
  by (simp_all add: init_locals_def)

lemma ex_update: "(replicate 3 (0::real))[2 := v] = [0, 0, v]"
  by (simp add: numeral_3_eq_3 numeral_2_eq_2)

text \<open>The third subintegration, three channels, DM and GM requested.\<close>

lemma ex_sub2_mask:
  "select_fit_flags ex_opts (length (freqsx ex_data 2)) loc = Inr [1, 1, 1, 0, 0]"
  by (simp add: select_fit_flags_def ex_freqsx ex_masks)

lemma ex_sub2:
  "\<exists>L' toa. process_subint ex_X ex_opts ''m.gmodel'' ex_data 2 (init_locals ex_opts 3 None)
              = Inr (L', toa)"
proof (rule process_subint_succeeds [OF _ _ ex_sub2_mask])
  show "2 < d_nsub ex_data" by (simp add: ex_data_def)
  show "freqsx ex_data 2 \<noteq> []" by (simp add: ex_freqsx)
  show "2 < length (covariances (init_locals ex_opts 3 None))" by (simp add: ex_init_cov)
  show "shape (covariance_matrix (fit_portrait_full ex_X (d_datafile ex_data) 2 [1, 1, 1, 0, 0]))
           = shape (covariances (init_locals ex_opts 3 None) ! 2)
         \<or> shape (covariance_matrix (fit_portrait_full ex_X (d_datafile ex_data) 2 [1, 1, 1, 0, 0]))
           = (1, 1)"
    by (simp add: ex_X_def ex_fit_def np_where_ex shape_ex_cov ex_init_cov ex_masks shape_zeros)
  show "nu_ref_DM ex_opts = None
         \<or> (\<exists>c. get_item (covariance_matrix
                   (fit_portrait_full ex_X (d_datafile ex_data) 2 [1, 1, 1, 0, 0])) 0 1 = Inr c)"
    by (simp add: nu_ref_DM_def ex_opts_def)
qed

theorem TOA_of_fitted_phase_witness:
  "\<exists>L' toa. process_subint ex_X ex_opts ''m.gmodel'' ex_data 2 (init_locals ex_opts 3 None)
               = Inr (L', toa)
      \<and> MJD toa = 58002 + (1 / 4 * (1 / 100) + 0) / 86400
      \<and> TOA_error toa = 1 / 1000 * (1 / 100) * 1000000"
proof -
  from ex_sub2 obtain L' toa where
    p: "process_subint ex_X ex_opts ''m.gmodel'' ex_data 2 (init_locals ex_opts 3 None)
          = Inr (L', toa)" by blast
  from TOA_of_fitted_phase [OF p] have
    "MJD toa = 58002 + (1 / 4 * (1 / 100) + 0) / 86400
      \<and> TOA_error toa = 1 / 1000 * (1 / 100) * 1000000"
    by (auto simp: ex_X_def ex_fit_def ex_data_def)
  with p show ?thesis by blast
qed

theorem doppler_multiplies_witness:
  "\<exists>L' toa. process_subint ex_X ex_opts ''m.gmodel'' ex_data 2 (init_locals ex_opts 3 None)
               = Inr (L', toa)
      \<and> bary ex_opts \<and> fit_flags L' = Some [1, 1, 1, 0, 0]
      \<and> DM toa = Some (10 * 2) \<and> DMs L' = [0, 0, 10 * 2] \<and> GMs L' = [0, 0, 3 * 2 ^ 3]
      \<and> map_of (flags toa) ''gm'' = Some (FNum (3 * 2 ^ 3))"
proof -
  from ex_sub2 obtain L' toa where
    p: "process_subint ex_X ex_opts ''m.gmodel'' ex_data 2 (init_locals ex_opts 3 None)
          = Inr (L', toa)" by blast
  from process_subint_Inr(1) [OF p] fit_subint_Inr(1) have
    m: "fit_flags L' = Some [1, 1, 1, 0, 0]" by (auto simp: ex_sub2_mask)
  from doppler_multiplies [OF p] m have
    "bary ex_opts \<and> DM toa = Some (10 * 2) \<and> DMs L' = [0, 0, 10 * 2] \<and> GMs L' = [0, 0, 3 * 2 ^ 3]
      \<and> map_of (flags toa) ''gm'' = Some (FNum (3 * 2 ^ 3))"
    by (auto simp: ex_X_def ex_fit_def ex_data_def ex_opts_def init_locals_def ex_update)
  with p m show ?thesis by blast
qed


text \<open>The second subintegration, two channels, DM requested and GM not.\<close>

lemma ex_sub1_mask:
  "select_fit_flags ex_opts_DM (length (freqsx ex_data 1)) loc = Inr [1, 1, 0, 0, 0]"
  "select_fit_flags ex_opts_ref (length (freqsx ex_data 1)) loc = Inr [1, 1, 0, 0, 0]"
  by (simp_all add: select_fit_flags_def ex_freqsx ex_masks)
     (simp_all add: ex_opts_DM_def ex_opts_ref_def ex_opts_def)

lemma ex_sub1_DM:
  "\<exists>L' toa. process_subint ex_X ex_opts_DM ''m.gmodel'' ex_data 1 (init_locals ex_opts_DM 3 None)
              = Inr (L', toa)"
proof (rule process_subint_succeeds [OF _ _ ex_sub1_mask(1)])
  show "1 < d_nsub ex_data" by (simp add: ex_data_def)
  show "freqsx ex_data 1 \<noteq> []" by (simp add: ex_freqsx)
  show "1 < length (covariances (init_locals ex_opts_DM 3 None))" by (simp add: ex_init_cov)
  show "shape (covariance_matrix (fit_portrait_full ex_X (d_datafile ex_data) 1 [1, 1, 0, 0, 0]))
           = shape (covariances (init_locals ex_opts_DM 3 None) ! 1)
         \<or> shape (covariance_matrix (fit_portrait_full ex_X (d_datafile ex_data) 1 [1, 1, 0, 0, 0]))
           = (1, 1)"
    by (simp add: ex_X_def ex_fit_def np_where_ex shape_ex_cov ex_init_cov ex_masks shape_zeros)
  show "nu_ref_DM ex_opts_DM = None
         \<or> (\<exists>c. get_item (covariance_matrix
                   (fit_portrait_full ex_X (d_datafile ex_data) 1 [1, 1, 0, 0, 0])) 0 1 = Inr c)"
    by (simp add: nu_ref_DM_def ex_opts_DM_def ex_opts_def)
qed

lemma ex_sub1_ref:
  "\<exists>L' toa. process_subint ex_X ex_opts_ref ''m.gmodel'' ex_data 1 (init_locals ex_opts_ref 3 None)
              = Inr (L', toa)"
proof (rule process_subint_succeeds [OF _ _ ex_sub1_mask(2)])
  show "1 < d_nsub ex_data" by (simp add: ex_data_def)
  show "freqsx ex_data 1 \<noteq> []" by (simp add: ex_freqsx)
  show "1 < length (covariances (init_locals ex_opts_ref 3 None))" by (simp add: ex_init_cov)
  show "shape (covariance_matrix (fit_portrait_full ex_X (d_datafile ex_data) 1 [1, 1, 0, 0, 0]))
           = shape (covariances (init_locals ex_opts_ref 3 None) ! 1)
         \<or> shape (covariance_matrix (fit_portrait_full ex_X (d_datafile ex_data) 1 [1, 1, 0, 0, 0]))
           = (1, 1)"
    by (simp add: ex_X_def ex_fit_def np_where_ex shape_ex_cov ex_init_cov ex_masks shape_zeros)
  show "nu_ref_DM ex_opts_ref = None
         \<or> (\<exists>c. get_item (covariance_matrix
                   (fit_portrait_full ex_X (d_datafile ex_data) 1 [1, 1, 0, 0, 0])) 0 1 = Inr c)"
    by (intro disjI2 exI [of _ "1 / 2"]) (simp add: ex_X_def ex_fit_def np_where_ex ex_cov_item)
qed

lemma ex_opts_DM_facts:
  "fit_DM ex_opts_DM" "\<not> fit_GM ex_opts_DM" "nu_ref_DM ex_opts_DM = None"
  "addtnl_toa_flags ex_opts_DM = []"
  "fit_DM ex_opts_ref" "\<not> fit_GM ex_opts_ref" "nu_ref_DM ex_opts_ref = Some 1400"
  "addtnl_toa_flags ex_opts_ref = []"
  by (simp_all add: ex_opts_DM_def ex_opts_ref_def ex_opts_def nu_ref_DM_def)

text \<open>
  Claim C8, as the specification states it, fails: with the default
  \<^verbatim>\<open>nu_refs=None\<close> the TOA of the second example subintegration (two good
  channels, DM fit, GM not) has no \<^verbatim>\<open>phi_DM_cov\<close> flag.
\<close>

theorem wideband_DM_only_flags_counterexample:
  "fit_DM ex_opts_DM \<and> \<not> fit_GM ex_opts_DM \<and> 2 \<le> length (freqsx ex_data 1)
   \<and> \<not> isl (process_subint ex_X ex_opts_DM ''m.gmodel'' ex_data 1
               (init_locals ex_opts_DM 3 None))
   \<and> ''phi_DM_cov'' \<notin> fst ` set (flags (snd (projr
         (process_subint ex_X ex_opts_DM ''m.gmodel'' ex_data 1
            (init_locals ex_opts_DM 3 None)))))"
proof -
  from ex_sub1_DM obtain L' toa where
    p: "process_subint ex_X ex_opts_DM ''m.gmodel'' ex_data 1 (init_locals ex_opts_DM 3 None)
          = Inr (L', toa)" by blast
  from process_subint_Inr(1) [OF p] obtain ff where
    f: "fit_subint ex_X ex_opts_DM ''m.gmodel'' ex_data 1 (init_locals ex_opts_DM 3 None) ff
          = Inr (L', toa)" by blast
  have "''phi_DM_cov'' \<notin> fst ` set (flags toa)"
    using compile_toa_flags_keys(2) [OF fit_subint_Inr(12) [OF f]]
    by (simp add: ex_opts_DM_facts)
  with p show ?thesis by (simp add: ex_opts_DM_facts ex_freqsx)
qed

theorem wideband_DM_only_flags_witness:
  "fit_DM ex_opts_ref \<and> \<not> fit_GM ex_opts_ref \<and> 2 \<le> length (freqsx ex_data 1)
   \<and> (\<exists>L' toa. process_subint ex_X ex_opts_ref ''m.gmodel'' ex_data 1
                  (init_locals ex_opts_ref 3 None) = Inr (L', toa)
         \<and> ''gm'' \<notin> fst ` set (flags toa) \<and> ''phi_DM_cov'' \<in> fst ` set (flags toa))"
proof -
  have h: "fit_DM ex_opts_ref" "\<not> fit_GM ex_opts_ref" "2 \<le> length (freqsx ex_data 1)"
    by (simp_all add: ex_opts_DM_facts ex_freqsx)
  from ex_sub1_ref obtain L' toa where
    p: "process_subint ex_X ex_opts_ref ''m.gmodel'' ex_data 1 (init_locals ex_opts_ref 3 None)
          = Inr (L', toa)" by blast
  from wideband_DM_only_flags [OF h p] have
    "''gm'' \<notin> fst ` set (flags toa) \<and> ''phi_DM_cov'' \<in> fst ` set (flags toa)"
    by (simp add: ex_opts_DM_facts)
  with h p show ?thesis by blast
qed

subsection \<open>The archive-level DM\<close>

lemma sum_list_pos_real:
  fixes f :: "'a \<Rightarrow> real"
  assumes "xs \<noteq> []" "\<And>x. x \<in> set xs \<Longrightarrow> 0 < f x"
  shows "0 < sum_list (map f xs)"
  using assms
proof (induction xs)
  case Nil
  then show ?case by simp
next
  case (Cons x xs)
  have "0 < f x" using Cons.prems by simp
  moreover have "0 \<le> sum_list (map f xs)"
    using Cons.prems by (intro sum_list_nonneg) (auto intro: less_imp_le)
  ultimately show ?case by simp
qed

lemma DM_weight_pos:
  "i \<in> set ok \<Longrightarrow> 0 < DM_weight DM_errs_a ok i"
  by (auto simp: DM_weight_def power_int_minus)

lemma aggregate_weights:
  "(if list_all (\<lambda>e. e \<noteq> 0) (map (\<lambda>i. DM_errs_a ! i) ok)
    then map (\<lambda>e. 1 / e ^ 2) (map (\<lambda>i. DM_errs_a ! i) ok)
    else replicate (length (map (\<lambda>i. DM_errs_a ! i) ok)) 1)
   = map (DM_weight DM_errs_a ok) ok"
proof (cases "\<forall>j \<in> set ok. DM_errs_a ! j \<noteq> 0")
  case True
  then have "DM_weight DM_errs_a ok = (\<lambda>i. 1 / (DM_errs_a ! i) ^ 2)"
    by (auto simp: DM_weight_def power_int_minus divide_inverse fun_eq_iff)
  with True show ?thesis by (simp add: list_all_iff comp_def)
next
  case False
  then have "DM_weight DM_errs_a ok = (\<lambda>i. 1)"
    by (auto simp: DM_weight_def fun_eq_iff)
  moreover have "\<not> list_all (\<lambda>e. e \<noteq> 0) (map (\<lambda>i. DM_errs_a ! i) ok)"
    using False by (auto simp: list_all_iff)
  ultimately show ?thesis by (simp add: map_replicate_const)
qed

lemma aggregate_DM_eq:
  assumes ne: "ok \<noteq> []"
    and rng: "\<forall>i \<in> set ok. i < length DMs_a \<and> i < length DM_errs_a"
  shows "aggregate_DM DMs_a DM_errs_a DM0_a ok =
     (let w = DM_weight DM_errs_a ok;
          sw = (\<Sum>i\<leftarrow>ok. w i);
          mean = (\<Sum>i\<leftarrow>ok. (DMs_a ! i - DM0_a) * w i) / sw;
          var = 1 / sw
      in Inr (mean,
              sqrt (if length ok > 1
                    then var * ((\<Sum>i\<leftarrow>ok. (DMs_a ! i - DM0_a - mean) ^ 2 * w i)
                                  / (real (length ok) - 1))
                    else var)))"
proof -
  let ?w = "DM_weight DM_errs_a ok"
  have sel: "map (\<lambda>i. map (\<lambda>x. x - DM0_a) DMs_a ! i) ok = map (\<lambda>i. DMs_a ! i - DM0_a) ok"
    using rng by (intro map_cong) auto
  have pos: "0 < (\<Sum>i\<leftarrow>ok. ?w i)"
    using ne by (intro sum_list_pos_real) (auto simp: DM_weight_pos)
  have z1: "map2 (*) (map (\<lambda>i. DMs_a ! i - DM0_a) ok) (map ?w ok)
            = map (\<lambda>i. (DMs_a ! i - DM0_a) * ?w i) ok"
    by (simp add: zip_map_map zip_same_conv_map)
  have z2: "map2 (\<lambda>x w. (x - m) ^ 2 * w) (map (\<lambda>i. DMs_a ! i - DM0_a) ok) (map ?w ok)
            = map (\<lambda>i. (DMs_a ! i - DM0_a - m) ^ 2 * ?w i) ok" for m
    by (simp add: zip_map_map zip_same_conv_map)
  have inr: "\<not> \<not> list_all (\<lambda>i. i < length DMs_a \<and> i < length DM_errs_a) ok"
    using rng by (simp add: list_all_iff)
  show ?thesis
    unfolding aggregate_DM_def Let_def aggregate_weights sel np_average_def z1 z2
    using pos inr by simp
qed


text \<open>
  Claim C4. For the good subintegrations of an archive (at least one, indices
  inside the arrays, as they are after the loop), \<^verbatim>\<open>DeltaDM_mean\<close> is the weighted
  mean of \<open>DM\<^sub>i - DM0\<close> with the weights \<open>DM_weight\<close>, the inverse squares of the DM
  uncertainties when none of them is zero and 1 otherwise; and with more than
  one good subintegration the square of \<^verbatim>\<open>DeltaDM_err\<close> is the inverse of the sum
  of the weights times the sum of \<open>(\<Delta>DM\<^sub>i - mean)\<^sup>2 w\<^sub>i\<close> divided by \<open>n - 1\<close>.
\<close>

theorem archive_DM_weighted_mean:
  assumes "ok \<noteq> []"
    and "\<forall>i \<in> set ok. i < length DMs_a \<and> i < length DM_errs_a"
  shows "\<exists>mean err. aggregate_DM DMs_a DM_errs_a DM0_a ok = Inr (mean, err)
     \<and> mean = (\<Sum>i\<leftarrow>ok. (DMs_a ! i - DM0_a) * DM_weight DM_errs_a ok i)
                / (\<Sum>i\<leftarrow>ok. DM_weight DM_errs_a ok i)
     \<and> (1 < length ok \<longrightarrow>
          err ^ 2 = inverse (\<Sum>i\<leftarrow>ok. DM_weight DM_errs_a ok i)
                    * ((\<Sum>i\<leftarrow>ok. (DMs_a ! i - DM0_a - mean) ^ 2 * DM_weight DM_errs_a ok i)
                        / (real (length ok) - 1)))"
proof -
  let ?w = "DM_weight DM_errs_a ok"
  let ?sw = "\<Sum>i\<leftarrow>ok. ?w i"
  let ?mean = "(\<Sum>i\<leftarrow>ok. (DMs_a ! i - DM0_a) * ?w i) / ?sw"
  let ?chi = "\<Sum>i\<leftarrow>ok. (DMs_a ! i - DM0_a - ?mean) ^ 2 * ?w i"
  let ?v = "if 1 < length ok then 1 / ?sw * (?chi / (real (length ok) - 1)) else 1 / ?sw"
  have eq: "aggregate_DM DMs_a DM_errs_a DM0_a ok = Inr (?mean, sqrt ?v)"
    using aggregate_DM_eq [OF assms] by (simp add: Let_def)
  have pos: "0 < ?sw"
    using assms(1) by (intro sum_list_pos_real) (auto simp: DM_weight_pos)
  have chi: "0 \<le> ?chi"
    by (intro sum_list_nonneg) (auto intro!: mult_nonneg_nonneg less_imp_le [OF DM_weight_pos])
  have "(sqrt ?v) ^ 2 = inverse ?sw * (?chi / (real (length ok) - 1))" if n: "1 < length ok"
  proof -
    have "0 \<le> 1 / ?sw * (?chi / (real (length ok) - 1))"
      using pos chi n by (intro mult_nonneg_nonneg divide_nonneg_nonneg) auto
    with n show ?thesis by (simp add: inverse_eq_divide)
  qed
  with eq show ?thesis by blast
qed

theorem archive_DM_weighted_mean_witness:
  "[0, 1::nat] \<noteq> [] \<and> 1 < length [0, 1::nat]
   \<and> aggregate_DM [11, 9] [1 / 2, 1 / 2] 10 [0, 1] = Inr (0, 1)"
proof -
  have h: "[0, 1::nat] \<noteq> []"
    "\<forall>i \<in> set [0, 1::nat]. i < length [11, 9::real] \<and> i < length [1 / 2, 1 / 2::real]"
    by simp_all
  have w: "DM_weight [1 / 2, 1 / 2] [0, Suc 0] 0 = 4"
    "DM_weight [1 / 2, 1 / 2] [0, Suc 0] (Suc 0) = 4"
    by (simp_all add: DM_weight_def power_int_minus power2_eq_square)
  from archive_DM_weighted_mean [OF h, of 10] obtain mean err where
    a: "aggregate_DM [11, 9] [1 / 2, 1 / 2] 10 [0, 1] = Inr (mean, err)"
    and m: "mean = 0" and e: "err ^ 2 = 1"
    by (auto simp: w)
  have "0 \<le> err"
    using a by (auto simp: aggregate_DM_def np_average_def Let_def split: if_splits)
  with e have "err = 1" by (simp add: power2_eq_1_iff)
  with a m h show ?thesis by simp
qed


lemma process_subint_lengths:
  assumes "process_subint X opts mf d isub L = Inr (L', toa)"
  shows "length (DMs L') = length (DMs L)" "length (DM_errs L') = length (DM_errs L)"
    "isub < d_nsub d"
proof -
  from process_subint_Inr(1) [OF assms] obtain ff where
    f: "fit_subint X opts mf d isub L ff = Inr (L', toa)" by blast
  show "length (DMs L') = length (DMs L)" using fit_subint_Inr(6) [OF f] by simp
  show "length (DM_errs L') = length (DM_errs L)" using fit_subint_Inr(7) [OF f] by simp
  show "isub < d_nsub d" by (rule process_subint_Inr(2) [OF assms])
qed

lemma subint_loop_lengths:
  "subint_loop X opts d isubs L gt = (Inr L', gt') \<Longrightarrow>
   length (DMs L') = length (DMs L) \<and> length (DM_errs L') = length (DM_errs L)
   \<and> (\<forall>i \<in> set isubs. i < d_nsub d)"
proof (induction isubs arbitrary: L gt)
  case Nil
  then show ?case by simp
next
  case (Cons isub rest)
  from Cons.prems obtain L1 toa where
    p: "process_subint X opts (modelfile gt) d isub L = Inr (L1, toa)"
    and r: "subint_loop X opts d rest L1 (gt\<lparr>TOA_list := TOA_list gt @ [toa]\<rparr>) = (Inr L', gt')"
    by (auto split: sum.splits)
  from Cons.IH [OF r] process_subint_lengths [OF p] show ?case by simp
qed

text \<open>What one archive appends to the DM summaries of the object: the result of
  \<open>aggregate_DM\<close> on the arrays that the loop filled, read at indices in range.\<close>

lemma get_TOAs_archive_DM:
  assumes "get_TOAs_archive X opts d loc gt = (Inr loc', gt')"
  shows "\<exists>L gt1 mean err.
           subint_loop X opts d (d_ok_isubs d) (init_locals opts (d_nsub d) loc) gt = (Inr L, gt1)
         \<and> aggregate_DM (DMs L) (DM_errs L) (case DM0 opts of None \<Rightarrow> d_DM d | Some x \<Rightarrow> x)
              (d_ok_isubs d) = Inr (mean, err)
         \<and> DeltaDM_means gt' = DeltaDM_means gt1 @ [mean]
         \<and> DeltaDM_errs gt' = DeltaDM_errs gt1 @ [err]
         \<and> (\<forall>i \<in> set (d_ok_isubs d). i < length (DMs L) \<and> i < length (DM_errs L))"
proof -
  from assms obtain L gt1 mean err where
    l: "subint_loop X opts d (d_ok_isubs d) (init_locals opts (d_nsub d) loc) gt = (Inr L, gt1)"
    and a: "aggregate_DM (DMs L) (DM_errs L) (case DM0 opts of None \<Rightarrow> d_DM d | Some x \<Rightarrow> x)
              (d_ok_isubs d) = Inr (mean, err)"
    and g: "gt' = gt1\<lparr> ok_isubs_s := ok_isubs_s gt1 @ [d_ok_isubs d],
                     DM0s := DM0s gt1 @ [case DM0 opts of None \<Rightarrow> d_DM d | Some x \<Rightarrow> x],
                     DeltaDM_means := DeltaDM_means gt1 @ [mean],
                     DeltaDM_errs := DeltaDM_errs gt1 @ [err] \<rparr>"
    by (auto simp: get_TOAs_archive_def Let_def split: prod.splits sum.splits)
  from subint_loop_lengths [OF l]
  have "\<forall>i \<in> set (d_ok_isubs d). i < length (DMs L) \<and> i < length (DM_errs L)"
    by (simp add: init_locals_def)
  with l a g show ?thesis by auto
qed

subsection \<open>The covariance slot of a subintegration (lines 645 to 651)\<close>

lemma remap_row_spec:
  assumes "ii < length M" and "ifit < length S"
    and "\<forall>c \<in> set cols. fst c < length (M ! ii) \<and> snd c < length (S ! ifit)"
  shows "\<exists>S'. remap_row S M ii ifit cols = Inr S' \<and> length S' = length S
          \<and> (\<forall>a. length (S' ! a) = length (S ! a))
          \<and> (\<forall>a b. a \<noteq> ifit \<or> b \<notin> snd ` set cols \<longrightarrow> S' ! a ! b = S ! a ! b)
          \<and> (distinct (map snd cols) \<longrightarrow> (\<forall>c \<in> set cols. S' ! ifit ! snd c = M ! ii ! fst c))"
  using assms
proof (induction cols arbitrary: S)
  case Nil
  then show ?case by simp
next
  case (Cons c cols)
  obtain jj jfit where c: "c = (jj, jfit)" by (cases c)
  define S1 where "S1 = S[ifit := (S ! ifit)[jfit := M ! ii ! jj]]"
  have g: "get_item M ii jj = Inr (M ! ii ! jj)"
    using Cons.prems c by (simp add: get_item_def)
  have s: "set_item S ifit jfit (M ! ii ! jj) = Inr S1"
    using Cons.prems c by (simp add: set_item_def S1_def)
  have len1: "length S1 = length S" by (simp add: S1_def)
  have row1: "length (S1 ! a) = length (S ! a)" for a
    using Cons.prems(2) by (cases "a = ifit") (simp_all add: S1_def)
  have "\<forall>c \<in> set cols. fst c < length (M ! ii) \<and> snd c < length (S1 ! ifit)"
    using Cons.prems(3) row1 by simp
  from Cons.IH [OF Cons.prems(1) _ this] Cons.prems(2) len1
  obtain S' where r: "remap_row S1 M ii ifit cols = Inr S'"
    and l: "length S' = length S1"
    and rl: "\<forall>a. length (S' ! a) = length (S1 ! a)"
    and un: "\<forall>a b. a \<noteq> ifit \<or> b \<notin> snd ` set cols \<longrightarrow> S' ! a ! b = S1 ! a ! b"
    and se: "distinct (map snd cols) \<longrightarrow> (\<forall>c \<in> set cols. S' ! ifit ! snd c = M ! ii ! fst c)"
    by auto
  have e: "remap_row S M ii ifit (c # cols) = Inr S'"
    using g s r c by simp
  have u1: "S1 ! a ! b = S ! a ! b" if "a \<noteq> ifit \<or> b \<noteq> jfit" for a b
    using that Cons.prems(2) by (cases "a = ifit") (auto simp: S1_def)
  have unch: "\<forall>a b. a \<noteq> ifit \<or> b \<notin> snd ` set (c # cols) \<longrightarrow> S' ! a ! b = S ! a ! b"
    using un u1 c by auto
  have hd_set: "S' ! ifit ! jfit = M ! ii ! jj" if d: "distinct (map snd (c # cols))"
  proof -
    from d c have "jfit \<notin> snd ` set cols" by auto
    with un have "S' ! ifit ! jfit = S1 ! ifit ! jfit" by simp
    also have "\<dots> = M ! ii ! jj"
      using Cons.prems(2,3) c by (simp add: S1_def)
    finally show ?thesis .
  qed
  have sets: "distinct (map snd (c # cols))
               \<longrightarrow> (\<forall>x \<in> set (c # cols). S' ! ifit ! snd x = M ! ii ! fst x)"
    using se hd_set c by auto
  from e l len1 rl row1 unch sets show ?case by auto
qed

lemma remap_rows_spec:
  assumes "\<forall>r \<in> set rows. fst r < length M \<and> snd r < length S"
    and "\<forall>r \<in> set rows. \<forall>c \<in> set cols. fst c < length (M ! fst r) \<and> snd c < length (S ! snd r)"
  shows "\<exists>S'. remap_rows S M rows cols = Inr S' \<and> length S' = length S
          \<and> (\<forall>a. length (S' ! a) = length (S ! a))
          \<and> (\<forall>a b. a \<notin> snd ` set rows \<or> b \<notin> snd ` set cols \<longrightarrow> S' ! a ! b = S ! a ! b)
          \<and> (distinct (map snd rows) \<longrightarrow> distinct (map snd cols) \<longrightarrow>
               (\<forall>r \<in> set rows. \<forall>c \<in> set cols. S' ! snd r ! snd c = M ! fst r ! fst c))"
  using assms
proof (induction rows arbitrary: S)
  case Nil
  then show ?case by simp
next
  case (Cons r rows)
  obtain ii ifit where r: "r = (ii, ifit)" by (cases r)
  have "ii < length M" "ifit < length S"
    "\<forall>c \<in> set cols. fst c < length (M ! ii) \<and> snd c < length (S ! ifit)"
    using Cons.prems r by auto
  from remap_row_spec [OF this]
  obtain S1 where r1: "remap_row S M ii ifit cols = Inr S1"
    and l1: "length S1 = length S"
    and rl1: "\<forall>a. length (S1 ! a) = length (S ! a)"
    and un1: "\<forall>a b. a \<noteq> ifit \<or> b \<notin> snd ` set cols \<longrightarrow> S1 ! a ! b = S ! a ! b"
    and se1: "distinct (map snd cols) \<longrightarrow> (\<forall>c \<in> set cols. S1 ! ifit ! snd c = M ! ii ! fst c)"
    by auto
  have p1: "\<forall>r \<in> set rows. fst r < length M \<and> snd r < length S1"
    using Cons.prems(1) l1 by simp
  have p2: "\<forall>r \<in> set rows. \<forall>c \<in> set cols.
              fst c < length (M ! fst r) \<and> snd c < length (S1 ! snd r)"
    using Cons.prems(2) rl1 by simp
  from Cons.IH [OF p1 p2]
  obtain S' where r2: "remap_rows S1 M rows cols = Inr S'"
    and l2: "length S' = length S1"
    and rl2: "\<forall>a. length (S' ! a) = length (S1 ! a)"
    and un2: "\<forall>a b. a \<notin> snd ` set rows \<or> b \<notin> snd ` set cols \<longrightarrow> S' ! a ! b = S1 ! a ! b"
    and se2: "distinct (map snd rows) \<longrightarrow> distinct (map snd cols) \<longrightarrow>
               (\<forall>r \<in> set rows. \<forall>c \<in> set cols. S' ! snd r ! snd c = M ! fst r ! fst c)"
    by auto
  have e: "remap_rows S M (r # rows) cols = Inr S'" using r r1 r2 by simp
  have unch: "\<forall>a b. a \<notin> snd ` set (r # rows) \<or> b \<notin> snd ` set cols \<longrightarrow> S' ! a ! b = S ! a ! b"
    using un1 un2 r by auto
  have sets: "\<forall>x \<in> set (r # rows). \<forall>c \<in> set cols. S' ! snd x ! snd c = M ! fst x ! fst c"
    if d: "distinct (map snd (r # rows))" "distinct (map snd cols)"
  proof (intro ballI)
    fix x c assume x: "x \<in> set (r # rows)" and c: "c \<in> set cols"
    show "S' ! snd x ! snd c = M ! fst x ! fst c"
    proof (cases "x \<in> set rows")
      case True
      with se2 d c show ?thesis by simp
    next
      case False
      with x have xr: "x = r" by simp
      from d r have "ifit \<notin> snd ` set rows" by auto
      with un2 have "S' ! ifit ! snd c = S1 ! ifit ! snd c" by simp
      with se1 d(2) c xr r show ?thesis by simp
    qed
  qed
  from e l1 l2 rl1 rl2 unch sets show ?case by auto
qed


lemma distinct_np_where: "distinct (np_where ff)"
  by (simp add: np_where_def)

lemma shape_square:
  assumes "length S = n" "\<forall>row \<in> set S. length row = n"
  shows "shape S = (n, n)"
  using assms by (cases S) (auto simp: shape_def)

lemma np_assign_mismatch:
  assumes "length S = n" "\<forall>row \<in> set S. length row = n"
    and "length M = k" "\<forall>row \<in> set M. length row = k"
    and "k \<noteq> n" "k \<noteq> 1"
  shows "np_assign S M = Inl ValueError"
  using shape_square [OF assms(1,2)] shape_square [OF assms(3,4)] assms(5,6)
  by (simp add: np_assign_def)

text \<open>
  Claim C5, amended. The slot of a subintegration is \<open>nfit \<times> nfit\<close> (here \<open>n \<times> n\<close>). When the
  fitted matrix is \<open>k \<times> k\<close> with \<open>k\<close> the number of free parameters of the mask, \<open>k \<noteq> n\<close>
  and \<open>k \<noteq> 1\<close> (the assignment raises \<^verbatim>\<open>ValueError\<close>), and the positions of the free
  parameters lie inside the slot, the matrix is written element by element: entry
  \<open>(i, j)\<close> at the positions of the \<open>i\<close>-th and \<open>j\<close>-th free parameters, every other
  entry of the slot unchanged. An exception of the subintegration body is not caught:
  it ends the loop over subintegrations and the loop over archives.
\<close>

theorem covariance_remap:
  assumes "length S = n" and "\<forall>row \<in> set S. length row = n"
    and "length M = k" and "\<forall>row \<in> set M. length row = k"
    and "k = length (np_where ff)"
    and "k \<noteq> n" and "k \<noteq> 1"
    and "\<forall>i \<in> set (np_where ff). i < n"
  shows "(\<exists>C. store_covariance S M ff = Inr C \<and> length C = n \<and> (\<forall>a < n. length (C ! a) = n)
            \<and> (\<forall>i < k. \<forall>j < k. C ! (np_where ff ! i) ! (np_where ff ! j) = M ! i ! j)
            \<and> (\<forall>a b. a \<notin> set (np_where ff) \<or> b \<notin> set (np_where ff)
                  \<longrightarrow> C ! a ! b = S ! a ! b))
       \<and> (process_subint X opts (modelfile gt) d isub L = Inl e
            \<longrightarrow> subint_loop X opts d (isub # isubs) L gt = (Inl e, gt))
       \<and> (load_data X f = Loaded d \<longrightarrow> d_ok_isubs d \<noteq> [] \<longrightarrow>
          check_FITS_model X (gt\<lparr>ok_idatafiles := ok_idatafiles gt @ [iarch]\<rparr>) d = Use \<longrightarrow>
          subint_loop X opts d (d_ok_isubs d) (init_locals opts (d_nsub d) loc)
            (gt\<lparr>ok_idatafiles := ok_idatafiles gt @ [iarch]\<rparr>) = (Inl e, gt') \<longrightarrow>
          archive_loop X opts ((iarch, f) # rest) loc gt = (Some e, gt'))"
proof (intro conjI)
  let ?w = "np_where ff"
  let ?idx = "enumerate 0 ?w"
  have rows: "\<forall>r \<in> set ?idx. fst r < length M \<and> snd r < length S"
    using assms(1,3,5,8) by (auto simp: in_set_enumerate_eq)
  have cols: "\<forall>r \<in> set ?idx. \<forall>c \<in> set ?idx.
                fst c < length (M ! fst r) \<and> snd c < length (S ! snd r)"
    using assms(1-5,8) by (auto simp: in_set_enumerate_eq)
  from remap_rows_spec [OF rows cols]
  obtain C where r: "remap_rows S M ?idx ?idx = Inr C"
    and l: "length C = length S"
    and rl: "\<forall>a. length (C ! a) = length (S ! a)"
    and un: "\<forall>a b. a \<notin> snd ` set ?idx \<or> b \<notin> snd ` set ?idx \<longrightarrow> C ! a ! b = S ! a ! b"
    and se: "distinct (map snd ?idx) \<longrightarrow> distinct (map snd ?idx) \<longrightarrow>
               (\<forall>r \<in> set ?idx. \<forall>c \<in> set ?idx. C ! snd r ! snd c = M ! fst r ! fst c)"
    by auto
  have sn: "snd ` set ?idx = set ?w"
    by (metis list.set_map map_snd_enumerate)
  have st: "store_covariance S M ff = Inr C"
    using np_assign_mismatch [OF assms(1-4,6,7)] r
    by (simp add: store_covariance_def remap_def Let_def)
  have ent: "C ! (?w ! i) ! (?w ! j) = M ! i ! j" if "i < k" "j < k" for i j
  proof -
    have "(i, ?w ! i) \<in> set ?idx" "(j, ?w ! j) \<in> set ?idx"
      using that assms(5) by (auto simp: in_set_enumerate_eq)
    with se distinct_np_where [of ff] show ?thesis
      by (fastforce simp: map_snd_enumerate)
  qed
  have rows_n: "\<forall>a < n. length (C ! a) = n"
    using rl assms(1,2) by auto
  show "\<exists>C. store_covariance S M ff = Inr C \<and> length C = n \<and> (\<forall>a < n. length (C ! a) = n)
            \<and> (\<forall>i < k. \<forall>j < k. C ! (np_where ff ! i) ! (np_where ff ! j) = M ! i ! j)
            \<and> (\<forall>a b. a \<notin> set (np_where ff) \<or> b \<notin> set (np_where ff)
                  \<longrightarrow> C ! a ! b = S ! a ! b)"
    using st l assms(1) rows_n ent un sn by auto
next
  show "process_subint X opts (modelfile gt) d isub L = Inl e
            \<longrightarrow> subint_loop X opts d (isub # isubs) L gt = (Inl e, gt)"
    by simp
next
  show "load_data X f = Loaded d \<longrightarrow> d_ok_isubs d \<noteq> [] \<longrightarrow>
          check_FITS_model X (gt\<lparr>ok_idatafiles := ok_idatafiles gt @ [iarch]\<rparr>) d = Use \<longrightarrow>
          subint_loop X opts d (d_ok_isubs d) (init_locals opts (d_nsub d) loc)
            (gt\<lparr>ok_idatafiles := ok_idatafiles gt @ [iarch]\<rparr>) = (Inl e, gt') \<longrightarrow>
          archive_loop X opts ((iarch, f) # rest) loc gt = (Some e, gt')"
    by (simp add: get_TOAs_archive_def Let_def)
qed



lemma ex_fix_masks:
  "self_fit_flags ex_opts_fix = [1, 1, 0, 0, 0]" "nfit ex_opts_fix = 1"
  "\<not> fit_GM ex_opts_fix" "nu_ref_DM ex_opts_fix = None"
  by (simp_all add: self_fit_flags_def nfit_def ex_opts_fix_def ex_opts_DM_def ex_opts_def
        fit_tau_def fit_alpha_def nu_ref_DM_def)

lemma ex_cov_vals: "ex_cov 1 = [[1]]" "ex_cov 2 = [[1, 1 / 2], [1 / 2, 1]]"
  "ex_cov (Suc 0) = [[1]]" "ex_cov (Suc (Suc 0)) = [[1, 1 / 2], [1 / 2, 1]]"
  by (simp_all add: ex_cov_def upt_rec)

lemma zeros_vals: "zeros 1 = [[0]]" "zeros 3 = [[0, 0, 0], [0, 0, 0], [0, 0, 0]]"
  "zeros (Suc 0) = [[0]]"
  by (simp_all add: zeros_def numeral_3_eq_3)

lemma ex_store_remap:
  "store_covariance (zeros 3) (ex_cov 2) [1, 1, 0, 0, 0]
     = Inr [[1, 1 / 2, 0], [1 / 2, 1, 0], [0, 0, 0]]"
  by (simp add: store_covariance_def np_assign_def shape_def zeros_vals ex_cov_vals
        remap_def np_where_ex get_item_def set_item_def enumerate_eq_zip upt_rec)

lemma ex_store_fails:
  "store_covariance (zeros 1) (ex_cov 2) [1, 1, 0, 0, 0] = Inl IndexError"
  by (simp add: store_covariance_def np_assign_def shape_def zeros_vals ex_cov_vals
        remap_def np_where_ex get_item_def set_item_def enumerate_eq_zip upt_rec)


lemma process_subint_step:
  assumes "process_subint X opts mf d isub L = Inr (L', toa)"
    and "select_fit_flags opts (length (freqsx d isub)) (fit_flags L) = Inr ff"
  shows "fit_flags L' = Some ff"
    and "length (covariances L') = length (covariances L)"
    and "j \<noteq> isub \<Longrightarrow> covariances L' ! j = covariances L ! j"
    and "DM toa = (if ff ! 1 = 0 then None
                   else Some (res_DM (fst (doppler_correction (bary opts)
                          (d_doppler_factors d isub) ff
                          (fit_portrait_full X (d_datafile d) isub ff)))))"
proof -
  from process_subint_Inr(1) [OF assms(1)] assms(2) have
    f: "fit_subint X opts mf d isub L ff = Inr (L', toa)" by auto
  note r = fit_subint_Inr [OF f]
  show "fit_flags L' = Some ff" by (rule r(1))
  from r(11) obtain C where c: "covariances L' = (covariances L)[isub := C]" by blast
  show "length (covariances L') = length (covariances L)" using c by simp
  show "j \<noteq> isub \<Longrightarrow> covariances L' ! j = covariances L ! j" using c by simp
  show "DM toa = (if ff ! 1 = 0 then None
                   else Some (res_DM (fst (doppler_correction (bary opts)
                          (d_doppler_factors d isub) ff
                          (fit_portrait_full X (d_datafile d) isub ff)))))"
    by (rule r(9))
qed

lemma process_subint_cov_fails:
  assumes "isub < d_nsub d" and "freqsx d isub \<noteq> []"
    and "select_fit_flags opts (length (freqsx d isub)) (fit_flags L) = Inr ff"
    and "isub < length (covariances L)"
    and "store_covariance (covariances L ! isub)
           (covariance_matrix (fit_portrait_full X (d_datafile d) isub ff)) ff = Inl e"
  shows "process_subint X opts mf d isub L = Inl e"
  using assms
  by (simp add: process_subint_def fit_subint_def Let_def split_def doppler_correction_other)

lemma get_TOAs_archive_ok:
  assumes "subint_loop X opts d (d_ok_isubs d) (init_locals opts (d_nsub d) loc) gt = (Inr L, gt1)"
    and "d_ok_isubs d \<noteq> []"
  shows "\<exists>gt'. get_TOAs_archive X opts d loc gt = (Inr (fit_flags L), gt')
           \<and> TOA_list gt' = TOA_list gt1"
proof -
  from subint_loop_lengths [OF assms(1)]
  have rng: "\<forall>i \<in> set (d_ok_isubs d). i < length (DMs L) \<and> i < length (DM_errs L)"
    by (simp add: init_locals_def)
  from aggregate_DM_eq [OF assms(2) rng] obtain mean err where
    "aggregate_DM (DMs L) (DM_errs L) (case DM0 opts of None \<Rightarrow> d_DM d | Some x \<Rightarrow> x)
       (d_ok_isubs d) = Inr (mean, err)"
    by (simp add: Let_def)
  with assms(1) show ?thesis by (simp add: get_TOAs_archive_def Let_def)
qed

lemma get_TOAs_archive_fails:
  assumes "subint_loop X opts d (d_ok_isubs d) (init_locals opts (d_nsub d) loc) gt = (Inl e, gt1)"
  shows "get_TOAs_archive X opts d loc gt = (Inl e, gt1)"
  using assms by (simp add: get_TOAs_archive_def Let_def)

lemma ex_get_TOAs:
  "get_TOAs ex_X opts None ex_gt
     = (case get_TOAs_archive ex_X opts ex_data None (ex_gt\<lparr>ok_idatafiles := [0]\<rparr>) of
          (Inl e, gt2) \<Rightarrow> (Some e, gt2)
        | (Inr loc', gt2) \<Rightarrow> (None, gt2))"
  by (simp add: get_TOAs_def ex_gt_def ex_X_def ex_data_def check_FITS_model_def
           split: prod.splits sum.splits)


lemma ex_ok_isubs: "d_ok_isubs ex_data = [0, 1, 2]" "d_nsub ex_data = 3"
  by (simp_all add: ex_data_def)

lemma ex_freqsx_ne: "isub < 3 \<Longrightarrow> freqsx ex_data isub \<noteq> []"
  by (simp add: freqsx_def ex_data_def)

lemma ex_step_ok:
  assumes "nu_ref_DM opts = None" and "isub < 3" and "length (covariances L) = 3"
    and "covariances L ! isub = zeros n" and "0 < n"
    and "select_fit_flags opts (length (freqsx ex_data isub)) (fit_flags L) = Inr ff"
    and "length (np_where ff) = n \<or> length (np_where ff) = 1"
  shows "\<exists>L' toa. process_subint ex_X opts mf ex_data isub L = Inr (L', toa)"
proof (rule process_subint_succeeds [OF _ _ assms(6)])
  show "isub < d_nsub ex_data" using assms(2) by (simp add: ex_data_def)
  show "freqsx ex_data isub \<noteq> []" using assms(2) by (rule ex_freqsx_ne)
  show "isub < length (covariances L)" using assms(2,3) by simp
  have k: "0 < length (np_where ff)" using assms(5,7) by auto
  have "covariance_matrix (fit_portrait_full ex_X (d_datafile ex_data) isub ff)
          = ex_cov (length (np_where ff))"
    by (simp add: ex_X_def ex_fit_def)
  then show "shape (covariance_matrix (fit_portrait_full ex_X (d_datafile ex_data) isub ff))
           = shape (covariances L ! isub)
         \<or> shape (covariance_matrix (fit_portrait_full ex_X (d_datafile ex_data) isub ff))
           = (1, 1)"
    using assms(4,5,7) k by (auto simp: shape_ex_cov shape_zeros)
  show "nu_ref_DM opts = None
         \<or> (\<exists>c. get_item (covariance_matrix
                   (fit_portrait_full ex_X (d_datafile ex_data) isub ff)) 0 1 = Inr c)"
    using assms(1) by simp
qed

lemma ex_init:
  "length (covariances (init_locals opts 3 loc)) = 3"
  "isub < 3 \<Longrightarrow> covariances (init_locals opts 3 loc) ! isub = zeros (nfit opts)"
  "fit_flags (init_locals opts 3 loc) = loc"
  by (simp_all add: init_locals_def)

text \<open>The run with DM fit, GM not, and \<^verbatim>\<open>fix_alpha=True\<close> without \<^verbatim>\<open>fit_scat\<close>.\<close>

lemma ex_fix_select:
  "select_fit_flags ex_opts_fix (length (freqsx ex_data 0)) loc = Inr [1, 0, 0, 0, 0]"
  "select_fit_flags ex_opts_fix (length (freqsx ex_data 1)) loc = Inr [1, 1, 0, 0, 0]"
  by (simp_all add: select_fit_flags_def ex_freqsx ex_fix_masks)

lemma ex_fix_loop:
  "\<exists>toa. subint_loop ex_X ex_opts_fix ex_data [0, 1, 2] (init_locals ex_opts_fix 3 None) gt
          = (Inl IndexError, gt\<lparr>TOA_list := TOA_list gt @ [toa]\<rparr>)"
proof -
  let ?L0 = "init_locals ex_opts_fix 3 None"
  have "\<exists>L' toa. process_subint ex_X ex_opts_fix (modelfile gt) ex_data 0 ?L0 = Inr (L', toa)"
  proof (rule ex_step_ok [where n = 1, OF ex_fix_masks(4) _ ex_init(1) _ _ ex_fix_select(1)])
    show "(0::nat) < 3" by simp
    show "covariances ?L0 ! 0 = zeros 1" by (simp add: ex_init ex_fix_masks)
    show "(0::nat) < 1" by simp
    show "length (np_where [1, 0, 0, 0, 0]) = 1 \<or> length (np_where [1, 0, 0, 0, 0]) = 1"
      by (simp add: np_where_ex)
  qed
  then obtain L1 toa0 where
    p0: "process_subint ex_X ex_opts_fix (modelfile gt) ex_data 0 ?L0 = Inr (L1, toa0)"
    by blast
  note s0 = process_subint_step [OF p0 ex_fix_select(1)]
  have c1: "covariances L1 ! 1 = zeros 1"
    using s0(3) [of 1] by (simp add: ex_init ex_fix_masks)
  have cm: "covariance_matrix (fit_portrait_full ex_X (d_datafile ex_data) 1 [1, 1, 0, 0, 0])
              = ex_cov 2"
    by (simp add: ex_X_def ex_fit_def np_where_ex numeral_2_eq_2)
  have st: "store_covariance (covariances L1 ! 1)
          (covariance_matrix (fit_portrait_full ex_X (d_datafile ex_data) 1 [1, 1, 0, 0, 0]))
          [1, 1, 0, 0, 0] = Inl IndexError"
    unfolding c1 cm by (rule ex_store_fails)
  have p1: "process_subint ex_X ex_opts_fix mf ex_data 1 L1 = Inl IndexError" for mf
  proof (rule process_subint_cov_fails [OF _ _ ex_fix_select(2) _ st])
    show "1 < d_nsub ex_data" by (simp add: ex_ok_isubs)
    show "freqsx ex_data 1 \<noteq> []" by (rule ex_freqsx_ne) simp
    show "1 < length (covariances L1)" by (simp add: s0(2) ex_init)
  qed
  have "subint_loop ex_X ex_opts_fix ex_data [0, 1, 2] ?L0 gt
          = (Inl IndexError, gt\<lparr>TOA_list := TOA_list gt @ [toa0]\<rparr>)"
    using p0 p1 by simp
  then show ?thesis by blast
qed

text \<open>
  Claim C5, as the specification states it, fails: with DM and GM requested the slot
  is \<open>3 \<times> 3\<close>, not \<open>5 \<times> 5\<close>, and the remapped matrix has three rows; with
  \<^verbatim>\<open>fix_alpha=True\<close> and no scattering fit the slot is \<open>1 \<times> 1\<close>, the remapping of the
  second subintegration raises \<^verbatim>\<open>IndexError\<close>, and \<^verbatim>\<open>get_TOAs\<close> ends there with the
  one TOA of the first subintegration: the third subintegration is never fit.
\<close>

theorem covariance_remap_counterexample:
  "nfit ex_opts = 3
   \<and> store_covariance (zeros (nfit ex_opts)) (ex_cov 2) [1, 1, 0, 0, 0]
        = Inr [[1, 1 / 2, 0], [1 / 2, 1, 0], [0, 0, 0]]
   \<and> fst (get_TOAs ex_X ex_opts_fix None ex_gt) = Some IndexError
   \<and> length (TOA_list (snd (get_TOAs ex_X ex_opts_fix None ex_gt))) = 1"
proof -
  let ?gt1 = "ex_gt\<lparr>ok_idatafiles := [0]\<rparr>"
  from ex_fix_loop [of ?gt1] obtain toa where
    l: "subint_loop ex_X ex_opts_fix ex_data [0, 1, 2] (init_locals ex_opts_fix 3 None) ?gt1
          = (Inl IndexError, ?gt1\<lparr>TOA_list := TOA_list ?gt1 @ [toa]\<rparr>)" by blast
  have "get_TOAs_archive ex_X ex_opts_fix ex_data None ?gt1
          = (Inl IndexError, ?gt1\<lparr>TOA_list := TOA_list ?gt1 @ [toa]\<rparr>)"
    by (rule get_TOAs_archive_fails) (simp only: ex_ok_isubs l)
  then have g: "get_TOAs ex_X ex_opts_fix None ex_gt
          = (Some IndexError, ?gt1\<lparr>TOA_list := TOA_list ?gt1 @ [toa]\<rparr>)"
    by (simp add: ex_get_TOAs)
  have a: "nfit ex_opts = 3" by (rule ex_masks(4))
  have b: "store_covariance (zeros (nfit ex_opts)) (ex_cov 2) [1, 1, 0, 0, 0]
             = Inr [[1, 1 / 2, 0], [1 / 2, 1, 0], [0, 0, 0]]"
    unfolding a by (rule ex_store_remap)
  have c: "fst (get_TOAs ex_X ex_opts_fix None ex_gt) = Some IndexError"
    "length (TOA_list (snd (get_TOAs ex_X ex_opts_fix None ex_gt))) = 1"
    unfolding g by (simp_all add: ex_gt_def)
  from a b c show ?thesis by (intro conjI)
qed


theorem covariance_remap_witness:
  "length (zeros 3) = 3 \<and> length (ex_cov 2) = 2 \<and> 2 = length (np_where [1, 1, 0, 0, 0])
   \<and> (\<exists>C. store_covariance (zeros 3) (ex_cov 2) [1, 1, 0, 0, 0] = Inr C \<and> length C = 3
          \<and> C ! 0 ! 0 = 1 \<and> C ! 0 ! 1 = 1 / 2 \<and> C ! 1 ! 0 = 1 / 2 \<and> C ! 1 ! 1 = 1
          \<and> C ! 2 ! 2 = 0)"
proof -
  have h: "length (zeros 3) = 3" "\<forall>row \<in> set (zeros 3). length row = 3"
    "length (ex_cov 2) = 2" "\<forall>row \<in> set (ex_cov 2). length row = 2"
    "2 = length (np_where [1, 1, 0, 0, 0])" "(2::nat) \<noteq> 3" "(2::nat) \<noteq> 1"
    "\<forall>i \<in> set (np_where [1, 1, 0, 0, 0]). i < 3"
    by (simp_all add: zeros_vals ex_cov_vals np_where_ex)
  from covariance_remap [OF h, THEN conjunct1] obtain C where
    s: "store_covariance (zeros 3) (ex_cov 2) [1, 1, 0, 0, 0] = Inr C"
    and l: "length C = 3"
    and e: "\<forall>i < 2. \<forall>j < 2. C ! (np_where [1, 1, 0, 0, 0] ! i) ! (np_where [1, 1, 0, 0, 0] ! j)
              = ex_cov 2 ! i ! j"
    and u: "\<forall>a b. a \<notin> set (np_where [1, 1, 0, 0, 0]) \<or> b \<notin> set (np_where [1, 1, 0, 0, 0])
              \<longrightarrow> C ! a ! b = zeros 3 ! a ! b"
    by blast
  have "C ! 0 ! 0 = 1" "C ! 0 ! 1 = 1 / 2" "C ! 1 ! 0 = 1 / 2" "C ! 1 ! 1 = 1"
    using e [rule_format, of 0 0] e [rule_format, of 0 1] e [rule_format, of 1 0]
      e [rule_format, of 1 1]
    by (simp_all add: np_where_ex ex_cov_vals)
  moreover have "C ! 2 ! 2 = 0"
    using u [rule_format, of 2 2] by (simp add: np_where_ex zeros_vals)
  ultimately show ?thesis using s l h(1,3,5) by blast
qed

subsection \<open>The mask of a two-channel subintegration (lines 519 to 529)\<close>

lemma ex_select:
  "select_fit_flags ex_opts (length (freqsx ex_data 0)) loc = Inr [1, 0, 0, 0, 0]"
  "select_fit_flags ex_opts (length (freqsx ex_data 1)) (Some [1, 0, 0, 0, 0])
     = Inr [1, 0, 0, 0, 0]"
  "select_fit_flags ex_opts (length (freqsx ex_data 2)) loc = Inr [1, 1, 1, 0, 0]"
  "select_fit_flags ex_opts 2 None = Inl (UnboundLocalError ''fit_flags'')"
  "select_fit_flags ex_opts 2 (Some [1, 0, 0, 0, 0]) = Inr [1, 0, 0, 0, 0]"
  by (simp_all add: select_fit_flags_def ex_freqsx ex_masks)
     (simp_all add: ex_opts_def)

lemma ex_opts_nu: "nu_ref_DM ex_opts = None" "bary ex_opts"
  by (simp_all add: nu_ref_DM_def ex_opts_def)

text \<open>
  Claim C1 at an archive whose good subintegrations have one, two and three good
  channels, with DM and GM both requested. The two-channel branch clears entry 2 of
  the mask left by the previous subintegration: after a one-channel subintegration
  that mask is \<open>[1, 0, 0, 0, 0]\<close>, so DM is off and the second TOA has no DM, where
  the claim (and the comment of the branch) has DM on; on a first subintegration
  the name is not bound yet and the branch raises \<^verbatim>\<open>UnboundLocalError\<close>.
\<close>

theorem two_channel_mask_is_stale:
  "fit_DM ex_opts \<and> fit_GM ex_opts
   \<and> map (length \<circ> freqsx ex_data) (d_ok_isubs ex_data) = [1, 2, 3]
   \<and> select_fit_flags ex_opts 2 None = Inl (UnboundLocalError ''fit_flags'')
   \<and> select_fit_flags ex_opts 2 (Some [1, 0, 0, 0, 0]) = Inr [1, 0, 0, 0, 0]
   \<and> fst (get_TOAs ex_X ex_opts None ex_gt) = None
   \<and> map DM (TOA_list (snd (get_TOAs ex_X ex_opts None ex_gt))) = [None, None, Some 20]"
proof -
  let ?gt1 = "ex_gt\<lparr>ok_idatafiles := [0]\<rparr>"
  let ?L0 = "init_locals ex_opts 3 None"
  have "\<exists>L' toa. process_subint ex_X ex_opts (modelfile ?gt1) ex_data 0 ?L0 = Inr (L', toa)"
  proof (rule ex_step_ok [where n = 3, OF ex_opts_nu(1) _ ex_init(1) _ _ ex_select(1)])
    show "(0::nat) < 3" by simp
    show "covariances ?L0 ! 0 = zeros 3" by (simp add: ex_init ex_masks)
    show "(0::nat) < 3" by simp
    show "length (np_where [1, 0, 0, 0, 0]) = 3 \<or> length (np_where [1, 0, 0, 0, 0]) = 1"
      by (simp add: np_where_ex)
  qed
  then obtain L1 toa0 where
    p0: "process_subint ex_X ex_opts (modelfile ?gt1) ex_data 0 ?L0 = Inr (L1, toa0)"
    by blast
  note s0 = process_subint_step [OF p0 ex_select(1)]
  have f1: "fit_flags L1 = Some [1, 0, 0, 0, 0]" by (rule s0(1))
  have "\<exists>L' toa. process_subint ex_X ex_opts (modelfile ?gt1) ex_data 1 L1 = Inr (L', toa)"
  proof (rule ex_step_ok [where n = 3, OF ex_opts_nu(1) _ _ _ _ ex_select(2) [folded f1]])
    show "(1::nat) < 3" by simp
    show "length (covariances L1) = 3" by (simp add: s0(2) ex_init)
    show "covariances L1 ! 1 = zeros 3" using s0(3) [of 1] by (simp add: ex_init ex_masks)
    show "(0::nat) < 3" by simp
    show "length (np_where [1, 0, 0, 0, 0]) = 3 \<or> length (np_where [1, 0, 0, 0, 0]) = 1"
      by (simp add: np_where_ex)
  qed
  then obtain L2 toa1 where
    p1: "process_subint ex_X ex_opts (modelfile ?gt1) ex_data 1 L1 = Inr (L2, toa1)"
    by blast
  note s1 = process_subint_step [OF p1 ex_select(2) [folded f1]]
  have "\<exists>L' toa. process_subint ex_X ex_opts (modelfile ?gt1) ex_data 2 L2 = Inr (L', toa)"
  proof (rule ex_step_ok [where n = 3, OF ex_opts_nu(1) _ _ _ _ ex_select(3)])
    show "(2::nat) < 3" by simp
    show "length (covariances L2) = 3" by (simp add: s1(2) s0(2) ex_init)
    show "covariances L2 ! 2 = zeros 3"
      using s1(3) [of 2] s0(3) [of 2] by (simp add: ex_init ex_masks)
    show "(0::nat) < 3" by simp
    show "length (np_where [1, 1, 1, 0, 0]) = 3 \<or> length (np_where [1, 1, 1, 0, 0]) = 1"
      by (simp add: np_where_ex)
  qed
  then obtain L3 toa2 where
    p2: "process_subint ex_X ex_opts (modelfile ?gt1) ex_data 2 L2 = Inr (L3, toa2)"
    by blast
  note s2 = process_subint_step [OF p2 ex_select(3)]
  have d0: "DM toa0 = None" using s0(4) by simp
  have d1: "DM toa1 = None" using s1(4) by simp
  have d2: "DM toa2 = Some 20"
    using s2(4) by (simp add: doppler_correction_vals ex_opts_nu ex_X_def ex_fit_def ex_data_def)
  have lp: "subint_loop ex_X ex_opts ex_data [0, 1, 2] ?L0 ?gt1
          = (Inr L3, ?gt1\<lparr>TOA_list := [toa0, toa1, toa2]\<rparr>)"
    using p0 p1 p2 by (simp add: ex_gt_def)
  have "subint_loop ex_X ex_opts ex_data (d_ok_isubs ex_data)
          (init_locals ex_opts (d_nsub ex_data) None) ?gt1
          = (Inr L3, ?gt1\<lparr>TOA_list := [toa0, toa1, toa2]\<rparr>)"
    by (simp only: ex_ok_isubs lp)
  from get_TOAs_archive_ok [OF this] obtain gt' where
    a: "get_TOAs_archive ex_X ex_opts ex_data None ?gt1 = (Inr (fit_flags L3), gt')"
    and t: "TOA_list gt' = [toa0, toa1, toa2]"
    by (auto simp: ex_ok_isubs)
  have g: "get_TOAs ex_X ex_opts None ex_gt = (None, gt')"
    by (simp add: ex_get_TOAs a)
  have r: "fst (get_TOAs ex_X ex_opts None ex_gt) = None"
    "map DM (TOA_list (snd (get_TOAs ex_X ex_opts None ex_gt))) = [None, None, Some 20]"
    unfolding g by (simp_all add: t d0 d1 d2)
  have o: "fit_DM ex_opts" "fit_GM ex_opts" by (simp_all add: ex_opts_def)
  have c: "map (length \<circ> freqsx ex_data) (d_ok_isubs ex_data) = [1, 2, 3]"
    by (simp add: ex_ok_isubs ex_freqsx)
  from o c ex_select(4,5) r show ?thesis by (intro conjI)
qed

end
